theory Spec2Isabelle
  imports Main "HOL-Library.Word" "HOL-Library.Sublist"
begin

section \<open>Package telemetry\<close>

subsection \<open>Configuration\<close>

text \<open>
  The process environment is a finite map from variable names to values.
  \<open>os.Getenv\<close> returns the empty string for a variable that is not set.
\<close>

type_synonym environ = "string \<rightharpoonup> string"

definition os_Getenv :: "environ \<Rightarrow> string \<Rightarrow> string" where
  "os_Getenv env k = (case env k of None \<Rightarrow> [] | Some v \<Rightarrow> v)"

record Config =
  ServiceName :: string
  ServiceVersion :: string
  Environment :: string
  OTLPEndpoint :: string
  Insecure :: bool

definition NewConfig :: "environ \<Rightarrow> Config" where
  "NewConfig env =
     (let endpoint = os_Getenv env ''OTEL_EXPORTER_OTLP_ENDPOINT'';
          endpoint = (if endpoint = [] then ''localhost:4318'' else endpoint);
          serviceName = os_Getenv env ''OTEL_SERVICE_NAME'';
          serviceName = (if serviceName = [] then ''sample-web-app'' else serviceName);
          serviceVersion = os_Getenv env ''OTEL_SERVICE_VERSION'';
          serviceVersion = (if serviceVersion = [] then ''1.0.0'' else serviceVersion);
          env' = os_Getenv env ''ENV'';
          env' = (if env' = [] then ''development'' else env');
          insecure = (os_Getenv env ''OTEL_INSECURE'' \<noteq> ''false'')
      in \<lparr> ServiceName = serviceName,
           ServiceVersion = serviceVersion,
           Environment = env',
           OTLPEndpoint = endpoint,
           Insecure = insecure \<rparr>)"

subsection \<open>Attributes and the calls made on the OpenTelemetry SDK\<close>

text \<open>
  Values of type \<open>float64\<close> occur in this program only as conversions of 64-bit
  integers; they are kept symbolic. A \<open>time.Duration\<close> is a number of nanoseconds.
\<close>

type_synonym Duration = int

datatype float64 =
    float64_of_int64 int
  | Duration_Seconds Duration

text \<open>\<open>Duration.Milliseconds\<close> is an integer division that truncates towards zero.\<close>

definition Duration_Milliseconds :: "Duration \<Rightarrow> int" where
  "Duration_Milliseconds d = sgn d * (\<bar>d\<bar> div 1000000)"

datatype Value =
    BoolValue bool
  | Int64Value int
  | Float64Value float64
  | StringValue string

type_synonym KeyValue = "string \<times> Value"

definition attribute_String :: "string \<Rightarrow> string \<Rightarrow> KeyValue" where
  "attribute_String k v = (k, StringValue v)"

definition attribute_Int :: "string \<Rightarrow> int \<Rightarrow> KeyValue" where
  "attribute_Int k v = (k, Int64Value v)"

definition attribute_Int64 :: "string \<Rightarrow> 64 word \<Rightarrow> KeyValue" where
  "attribute_Int64 k v = (k, Int64Value (sint v))"

definition attribute_Float64 :: "string \<Rightarrow> float64 \<Rightarrow> KeyValue" where
  "attribute_Float64 k v = (k, Float64Value v)"

definition attribute_Bool :: "string \<Rightarrow> bool \<Rightarrow> KeyValue" where
  "attribute_Bool k v = (k, BoolValue v)"

datatype SpanKind = SpanKindInternal | SpanKindServer

record Span =
  SpanID :: nat
  TraceID :: string

text \<open>A \<open>context.Context\<close> is modelled by what this program reads from it: the active span.\<close>

type_synonym Context = "Span option"

datatype InstrumentKind = Int64Counter | Float64Histogram | Int64UpDownCounter | Int64Histogram

record Instrument =
  inst_kind :: InstrumentKind
  inst_name :: string
  inst_description :: string
  inst_unit :: string

record Resource =
  res_service_name :: string
  res_service_version :: string
  res_environment :: string
  res_sdk_language :: string

record TracerProvider =
  tp_endpoint :: string
  tp_insecure :: bool
  tp_resource :: Resource
  tp_batch_timeout_s :: nat
  tp_max_export_batch_size :: nat

record MeterProvider =
  mp_endpoint :: string
  mp_insecure :: bool
  mp_resource :: Resource
  mp_interval_s :: nat

text \<open>
  Every call that the program makes on the SDK is appended to a log, in program order.
  The SDK is an external library; the log is what an observer of the SDK boundary sees.
\<close>

datatype sdk_call =
    Tracer_Start Span string SpanKind "KeyValue list"
  | Span_SetAttributes Span "KeyValue list"
  | Span_End Span
  | Counter_Add Instrument int "KeyValue list"
  | Float64Histogram_Record Instrument float64 "KeyValue list"
  | UpDownCounter_Add Instrument int
  | Int64Histogram_Record Instrument int
  | TracerProvider_Shutdown TracerProvider
  | MeterProvider_Shutdown MeterProvider

text \<open>
  The state of the SDK as far as this program touches it: the call log, the three
  process-global registrations of package \<open>otel\<close>, and the behaviour of the parts of the
  SDK whose results the program branches on (the identifier generator of the tracer and
  the results of the two provider shutdowns).
\<close>

record otel =
  calls :: "sdk_call list"
  global_TracerProvider :: "TracerProvider option"
  global_MeterProvider :: "MeterProvider option"
  global_TextMapPropagator :: "string list option"
  id_generator :: "nat \<Rightarrow> string"
  TracerProvider_Shutdown_result :: "string option"
  MeterProvider_Shutdown_result :: "string option"

definition call :: "sdk_call \<Rightarrow> otel \<Rightarrow> otel" where
  "call c s = s\<lparr>calls := calls s @ [c]\<rparr>"

subsection \<open>The Telemetry handle\<close>

text \<open>
  The two provider fields are pointers that \<open>Shutdown\<close> tests against \<open>nil\<close>.
  The instrument fields are those registered by \<open>initMetrics\<close>; a handle is only ever
  returned by \<open>Initialize\<close> after all five have been registered.
\<close>

record Telemetry =
  TracerProvider :: "TracerProvider option"
  MeterProvider :: "MeterProvider option"
  Tracer :: string
  Meter :: string
  RequestCounter :: Instrument
  RequestDuration :: Instrument
  ActiveRequests :: Instrument
  ErrorCounter :: Instrument
  MessageLength :: Instrument

subsection \<open>Initialize\<close>

text \<open>
  The fallible library calls of \<open>Initialize\<close>: each either fails with a message or
  succeeds. Instrument registration may fail per instrument name.
\<close>

record init_results =
  resource_Merge_err :: "string option"
  otlptracehttp_New_err :: "string option"
  otlpmetrichttp_New_err :: "string option"
  Meter_instrument_err :: "string \<Rightarrow> string option"

definition initTracerProvider :: "init_results \<Rightarrow> Config \<Rightarrow> Resource \<Rightarrow> string + TracerProvider" where
  "initTracerProvider ext cfg res =
     (case otlptracehttp_New_err ext of
        Some err \<Rightarrow> Inl err
      | None \<Rightarrow> Inr \<lparr> tp_endpoint = OTLPEndpoint cfg, tp_insecure = Insecure cfg,
                       tp_resource = res, tp_batch_timeout_s = 5,
                       tp_max_export_batch_size = 512 \<rparr>)"

definition initMeterProvider :: "init_results \<Rightarrow> Config \<Rightarrow> Resource \<Rightarrow> string + MeterProvider" where
  "initMeterProvider ext cfg res =
     (case otlpmetrichttp_New_err ext of
        Some err \<Rightarrow> Inl err
      | None \<Rightarrow> Inr \<lparr> mp_endpoint = OTLPEndpoint cfg, mp_insecure = Insecure cfg,
                       mp_resource = res, mp_interval_s = 15 \<rparr>)"

text \<open>
  \<open>initMetrics\<close> registers the five instruments in order and returns at the first failure.
  It is given the handle under construction as its provider and tracer fields; the
  bucket boundaries of the two histograms are floating-point constants and are left out.
\<close>

definition new_instrument :: "InstrumentKind \<Rightarrow> string \<Rightarrow> string \<Rightarrow> string \<Rightarrow> Instrument" where
  "new_instrument k n d u = \<lparr> inst_kind = k, inst_name = n, inst_description = d, inst_unit = u \<rparr>"

definition initMetrics ::
  "init_results \<Rightarrow> TracerProvider \<Rightarrow> MeterProvider \<Rightarrow> string \<Rightarrow> string \<Rightarrow> string + Telemetry" where
  "initMetrics ext tp mp tracer meter =
     (case Meter_instrument_err ext ''http_requests_total'' of Some err \<Rightarrow> Inl err | None \<Rightarrow>
     (case Meter_instrument_err ext ''http_request_duration_seconds'' of Some err \<Rightarrow> Inl err | None \<Rightarrow>
     (case Meter_instrument_err ext ''http_requests_active'' of Some err \<Rightarrow> Inl err | None \<Rightarrow>
     (case Meter_instrument_err ext ''http_errors_total'' of Some err \<Rightarrow> Inl err | None \<Rightarrow>
     (case Meter_instrument_err ext ''echo_message_length'' of Some err \<Rightarrow> Inl err | None \<Rightarrow>
      Inr \<lparr> TracerProvider = Some tp,
            MeterProvider = Some mp,
            Tracer = tracer,
            Meter = meter,
            RequestCounter = new_instrument Int64Counter ''http_requests_total''
                ''Total number of HTTP requests'' ''{request}'',
            RequestDuration = new_instrument Float64Histogram ''http_request_duration_seconds''
                ''HTTP request duration in seconds'' ''s'',
            ActiveRequests = new_instrument Int64UpDownCounter ''http_requests_active''
                ''Number of active HTTP requests'' ''{request}'',
            ErrorCounter = new_instrument Int64Counter ''http_errors_total''
                ''Total number of HTTP errors'' ''{error}'',
            MessageLength = new_instrument Int64Histogram ''echo_message_length''
                ''Length of echo messages'' ''{character}'' \<rparr>)))))"

text \<open>
  \<open>Initialize\<close> returns the handle or an error, together with the SDK state: the three
  assignments to the process globals happen between the construction of the providers
  and the registration of the instruments.
\<close>

definition Initialize :: "init_results \<Rightarrow> Config \<Rightarrow> otel \<Rightarrow> (string + Telemetry) \<times> otel" where
  "Initialize ext cfg s =
     (case resource_Merge_err ext of
        Some err \<Rightarrow> (Inl (''failed to create resource: '' @ err), s)
      | None \<Rightarrow>
         (let res = \<lparr> res_service_name = ServiceName cfg,
                      res_service_version = ServiceVersion cfg,
                      res_environment = Environment cfg,
                      res_sdk_language = ''go'' \<rparr>
          in (case initTracerProvider ext cfg res of
                Inl err \<Rightarrow> (Inl (''failed to initialize tracer provider: '' @ err), s)
              | Inr tp \<Rightarrow>
                 (case initMeterProvider ext cfg res of
                    Inl err \<Rightarrow> (Inl (''failed to initialize meter provider: '' @ err), s)
                  | Inr mp \<Rightarrow>
                     (let s1 = s\<lparr>global_TracerProvider := Some tp\<rparr>;
                          s2 = s1\<lparr>global_MeterProvider := Some mp\<rparr>;
                          s3 = s2\<lparr>global_TextMapPropagator := Some [''TraceContext'', ''Baggage'']\<rparr>;
                          tracer = ServiceName cfg;
                          meter = ServiceName cfg
                      in (case initMetrics ext tp mp tracer meter of
                            Inl err \<Rightarrow> (Inl (''failed to initialize metrics: '' @ err), s3)
                          | Inr tel \<Rightarrow> (Inr tel, s3)))))))"

subsection \<open>Shutdown\<close>

text \<open>\<open>fmt\<close> prints a slice of errors with \<open>%v\<close> as the messages between brackets, separated by spaces.\<close>

fun join_space :: "string list \<Rightarrow> string" where
  "join_space [] = []"
| "join_space [x] = x"
| "join_space (x # y # ys) = x @ '' '' @ join_space (y # ys)"

definition fmt_errs :: "string list \<Rightarrow> string" where
  "fmt_errs errs = ''['' @ join_space errs @ '']''"

definition Shutdown :: "Telemetry \<Rightarrow> otel \<Rightarrow> string option \<times> otel" where
  "Shutdown t s =
     (let errs = [];
          (errs, s) =
            (case TracerProvider t of
               None \<Rightarrow> (errs, s)
             | Some tp \<Rightarrow>
               let s = call (TracerProvider_Shutdown tp) s
               in (case TracerProvider_Shutdown_result s of
                     Some err \<Rightarrow> (errs @ [''tracer provider shutdown: '' @ err], s)
                   | None \<Rightarrow> (errs, s)));
          (errs, s) =
            (case MeterProvider t of
               None \<Rightarrow> (errs, s)
             | Some mp \<Rightarrow>
               let s = call (MeterProvider_Shutdown mp) s
               in (case MeterProvider_Shutdown_result s of
                     Some err \<Rightarrow> (errs @ [''meter provider shutdown: '' @ err], s)
                   | None \<Rightarrow> (errs, s)))
      in if length errs > 0
         then (Some (''shutdown errors: '' @ fmt_errs errs), s)
         else (None, s))"

subsection \<open>Recording\<close>

definition RecordRequest ::
  "Telemetry \<Rightarrow> Context \<Rightarrow> string \<Rightarrow> string \<Rightarrow> int \<Rightarrow> Duration \<Rightarrow> otel \<Rightarrow> otel" where
  "RecordRequest t ctx method path statusCode duration s =
     (let attrs = [attribute_String ''http.method'' method,
                   attribute_String ''http.route'' path,
                   attribute_Int ''http.status_code'' statusCode];
          s = call (Counter_Add (RequestCounter t) 1 attrs) s;
          s = call (Float64Histogram_Record (RequestDuration t) (Duration_Seconds duration) attrs) s
      in if statusCode \<ge> 400
         then call (Counter_Add (ErrorCounter t) 1 attrs) s
         else s)"

definition StartRequest :: "Telemetry \<Rightarrow> Context \<Rightarrow> otel \<Rightarrow> otel" where
  "StartRequest t ctx s = call (UpDownCounter_Add (ActiveRequests t) 1) s"

definition EndRequest :: "Telemetry \<Rightarrow> Context \<Rightarrow> otel \<Rightarrow> otel" where
  "EndRequest t ctx s = call (UpDownCounter_Add (ActiveRequests t) (- 1)) s"

definition RecordMessageLength :: "Telemetry \<Rightarrow> Context \<Rightarrow> int \<Rightarrow> otel \<Rightarrow> otel" where
  "RecordMessageLength t ctx len s = call (Int64Histogram_Record (MessageLength t) len) s"

section \<open>Package net/http: the surface used by the middleware\<close>

text \<open>
  Header keys are stored in canonical form, as \<open>textproto.CanonicalMIMEHeaderKey\<close>
  computes it: when every byte is a token character, the first letter and every letter
  after a hyphen is upper case and all others are lower case; otherwise the key is
  left as it is.
\<close>

type_synonym http_Header = "string \<rightharpoonup> string list"

definition lower_letters :: string where
  "lower_letters = ''abcdefghijklmnopqrstuvwxyz''"

definition upper_letters :: string where
  "upper_letters = ''ABCDEFGHIJKLMNOPQRSTUVWXYZ''"

definition to_upper :: "char \<Rightarrow> char" where
  "to_upper c = (case map_of (zip lower_letters upper_letters) c of Some u \<Rightarrow> u | None \<Rightarrow> c)"

definition to_lower :: "char \<Rightarrow> char" where
  "to_lower c = (case map_of (zip upper_letters lower_letters) c of Some l \<Rightarrow> l | None \<Rightarrow> c)"

definition validHeaderFieldByte :: "char \<Rightarrow> bool" where
  "validHeaderFieldByte c =
     (c \<in> set (lower_letters @ upper_letters @ ''0123456789'' @ ''!#$%&*+-.^_`|~'' @ [CHR 0x27]))"

fun canonical_from :: "bool \<Rightarrow> string \<Rightarrow> string" where
  "canonical_from up [] = []"
| "canonical_from up (c # cs) =
     (if up then to_upper c else to_lower c) # canonical_from (c = CHR ''-'') cs"

definition CanonicalMIMEHeaderKey :: "string \<Rightarrow> string" where
  "CanonicalMIMEHeaderKey k = (if list_all validHeaderFieldByte k then canonical_from True k else k)"

definition Header_Set :: "string \<Rightarrow> string \<Rightarrow> http_Header \<Rightarrow> http_Header" where
  "Header_Set k v h = h(CanonicalMIMEHeaderKey k \<mapsto> [v])"

definition Header_Add :: "string \<Rightarrow> string \<Rightarrow> http_Header \<Rightarrow> http_Header" where
  "Header_Add k v h =
     h(CanonicalMIMEHeaderKey k \<mapsto>
         (case h (CanonicalMIMEHeaderKey k) of None \<Rightarrow> [v] | Some vs \<Rightarrow> vs @ [v]))"

definition Header_Del :: "string \<Rightarrow> http_Header \<Rightarrow> http_Header" where
  "Header_Del k h = h(CanonicalMIMEHeaderKey k := None)"

definition Header_Get :: "http_Header \<Rightarrow> string \<Rightarrow> string" where
  "Header_Get h k =
     (case h (CanonicalMIMEHeaderKey k) of None \<Rightarrow> [] | Some [] \<Rightarrow> [] | Some (v # vs) \<Rightarrow> v)"

record Request =
  Method :: string
  URL_Path :: string
  URL_String :: string
  Host :: string
  RemoteAddr :: string
  TLS :: bool
  Request_Header :: http_Header
  Context :: Context

definition UserAgent :: "Request \<Rightarrow> string" where
  "UserAgent r = Header_Get (Request_Header r) ''User-Agent''"

text \<open>
  The \<open>http.ResponseWriter\<close> that the server hands to the outermost handler is an
  interface value of unknown implementation. It is modelled by what can be observed of
  it: its header map, the calls it has received (each with the header map in force at
  that moment), and an arbitrary function that decides what each \<open>Write\<close> returns from
  the calls received so far and the bytes offered.
\<close>

datatype w_call = W_WriteHeader int | W_Write string

record ResponseWriter =
  Header :: http_Header
  received :: "(w_call \<times> http_Header) list"
  Write_result :: "w_call list \<Rightarrow> string \<Rightarrow> int \<times> string option"

definition w_WriteHeader :: "int \<Rightarrow> ResponseWriter \<Rightarrow> ResponseWriter" where
  "w_WriteHeader code w = w\<lparr>received := received w @ [(W_WriteHeader code, Header w)]\<rparr>"

definition w_Write :: "string \<Rightarrow> ResponseWriter \<Rightarrow> (int \<times> string option) \<times> ResponseWriter" where
  "w_Write b w =
     (Write_result w (map fst (received w)) b,
      w\<lparr>received := received w @ [(W_Write b, Header w)]\<rparr>)"

section \<open>Package middleware\<close>

subsection \<open>responseWriter\<close>

text \<open>The field \<open>written\<close> is an \<open>int64\<close>; \<open>+=\<close> on it wraps around.\<close>

record responseWriter =
  ResponseWriter :: ResponseWriter
  statusCode :: int
  written :: "64 word"

definition newResponseWriter :: "ResponseWriter \<Rightarrow> responseWriter" where
  "newResponseWriter w = \<lparr> ResponseWriter = w, statusCode = 200, written = 0 \<rparr>"

definition rw_WriteHeader :: "int \<Rightarrow> responseWriter \<Rightarrow> responseWriter" where
  "rw_WriteHeader code rw =
     (let rw = rw\<lparr>statusCode := code\<rparr>
      in rw\<lparr>ResponseWriter := w_WriteHeader code (ResponseWriter rw)\<rparr>)"

definition rw_Write :: "string \<Rightarrow> responseWriter \<Rightarrow> (int \<times> string option) \<times> responseWriter" where
  "rw_Write b rw =
     (let ((n, err), w) = w_Write b (ResponseWriter rw);
          rw = rw\<lparr>ResponseWriter := w\<rparr>;
          rw = rw\<lparr>written := written rw + word_of_int n\<rparr>
      in ((n, err), rw))"

subsection \<open>Handlers\<close>

text \<open>
  A handler is an arbitrary Go function of a response writer and a request. What it
  does to its surroundings is a sequence of calls on the response writer and on the
  SDK, each later call possibly depending on the results of the earlier ones, ended by
  a return or a panic. A panic raised inside one of these calls reaches the middleware
  as a panic of the handler after that call. A handler that never ends has no completed
  request and is not represented.
\<close>

datatype handler_prog =
    Return
  | Panic string
  | Call_Header_Set string string handler_prog
  | Call_Header_Add string string handler_prog
  | Call_Header_Del string handler_prog
  | Call_Header_Get string "string \<Rightarrow> handler_prog"
  | Call_WriteHeader int handler_prog
  | Call_Write string "int \<Rightarrow> string option \<Rightarrow> handler_prog"
  | Call_Tracer_Start Context string SpanKind "KeyValue list" "Span \<Rightarrow> handler_prog"
  | Call_SDK sdk_call handler_prog

type_synonym Handler = "Request \<Rightarrow> handler_prog"

datatype outcome = Returned | Panicked string

text \<open>
  The method set of the interface \<open>http.ResponseWriter\<close>, for a writer whose state
  has type \<open>'w\<close>. \<open>Header()\<close> returns the map itself, which the caller then mutates.
\<close>

record 'w ResponseWriter_methods =
  m_Header :: "'w \<Rightarrow> http_Header"
  m_Header_modify :: "(http_Header \<Rightarrow> http_Header) \<Rightarrow> 'w \<Rightarrow> 'w"
  m_WriteHeader :: "int \<Rightarrow> 'w \<Rightarrow> 'w"
  m_Write :: "string \<Rightarrow> 'w \<Rightarrow> (int \<times> string option) \<times> 'w"

definition plain_methods :: "ResponseWriter ResponseWriter_methods" where
  "plain_methods =
     \<lparr> m_Header = Header,
       m_Header_modify = (\<lambda>f w. w\<lparr>Header := f (Header w)\<rparr>),
       m_WriteHeader = w_WriteHeader,
       m_Write = w_Write \<rparr>"

text \<open>
  \<open>responseWriter\<close> embeds the underlying writer: \<open>Header\<close> is promoted from it,
  \<open>WriteHeader\<close> and \<open>Write\<close> are the two methods defined on the wrapper.
\<close>

definition responseWriter_methods :: "responseWriter ResponseWriter_methods" where
  "responseWriter_methods =
     \<lparr> m_Header = (\<lambda>rw. Header (ResponseWriter rw)),
       m_Header_modify =
         (\<lambda>f rw. rw\<lparr>ResponseWriter := (ResponseWriter rw)\<lparr>Header := f (Header (ResponseWriter rw))\<rparr>\<rparr>),
       m_WriteHeader = rw_WriteHeader,
       m_Write = rw_Write \<rparr>"

text \<open>The tracer numbers the spans it starts; a span without a parent begins a new trace.\<close>

fun is_Tracer_Start :: "sdk_call \<Rightarrow> bool" where
  "is_Tracer_Start (Tracer_Start sp n k a) = True"
| "is_Tracer_Start c = False"

definition Tracer_Start_call ::
  "Context \<Rightarrow> string \<Rightarrow> SpanKind \<Rightarrow> KeyValue list \<Rightarrow> otel \<Rightarrow> Span \<times> otel" where
  "Tracer_Start_call ctx name kind attrs s =
     (let n = length (filter is_Tracer_Start (calls s));
          span = \<lparr> SpanID = n,
                   TraceID = (case ctx of Some parent \<Rightarrow> TraceID parent
                              | None \<Rightarrow> id_generator s n) \<rparr>
      in (span, call (Tracer_Start span name kind attrs) s))"

primrec run ::
  "'w ResponseWriter_methods \<Rightarrow> handler_prog \<Rightarrow> 'w \<Rightarrow> otel \<Rightarrow> ('w \<times> otel) \<times> outcome" where
  "run m Return = (\<lambda>w s. ((w, s), Returned))"
| "run m (Panic v) = (\<lambda>w s. ((w, s), Panicked v))"
| "run m (Call_Header_Set k v p) = (\<lambda>w s. run m p (m_Header_modify m (Header_Set k v) w) s)"
| "run m (Call_Header_Add k v p) = (\<lambda>w s. run m p (m_Header_modify m (Header_Add k v) w) s)"
| "run m (Call_Header_Del k p) = (\<lambda>w s. run m p (m_Header_modify m (Header_Del k) w) s)"
| "run m (Call_Header_Get k f) = (\<lambda>w s. run m (f (Header_Get (m_Header m w) k)) w s)"
| "run m (Call_WriteHeader code p) = (\<lambda>w s. run m p (m_WriteHeader m code w) s)"
| "run m (Call_Write b f) =
     (\<lambda>w s. case m_Write m b w of ((n, err), w') \<Rightarrow> run m (f n err) w' s)"
| "run m (Call_Tracer_Start ctx name kind attrs f) =
     (\<lambda>w s. case Tracer_Start_call ctx name kind attrs s of (span, s') \<Rightarrow> run m (f span) w s')"
| "run m (Call_SDK c p) = (\<lambda>w s. run m p w (call c s))"

definition ServeHTTP ::
  "'w ResponseWriter_methods \<Rightarrow> Handler \<Rightarrow> 'w \<Rightarrow> Request \<Rightarrow> otel \<Rightarrow> ('w \<times> otel) \<times> outcome" where
  "ServeHTTP m h w r s = run m (h r) w s"

subsection \<open>TracingMiddleware\<close>

definition getScheme :: "Request \<Rightarrow> string" where
  "getScheme r =
     (if TLS r then ''https''
      else (let scheme = Header_Get (Request_Header r) ''X-Forwarded-Proto''
            in if scheme \<noteq> [] then scheme else ''http''))"

text \<open>The attributes given to \<open>Tracer.Start\<close> through \<open>trace.WithAttributes\<close>.\<close>

definition request_attributes :: "Request \<Rightarrow> KeyValue list" where
  "request_attributes r =
     [attribute_String ''http.method'' (Method r),
      attribute_String ''http.url'' (URL_String r),
      attribute_String ''http.host'' (Host r),
      attribute_String ''http.user_agent'' (UserAgent r),
      attribute_String ''http.remote_addr'' (RemoteAddr r),
      attribute_String ''http.scheme'' (getScheme r)]"

text \<open>
  The two \<open>defer\<close> statements of the middleware. Deferred calls are kept on a stack, the
  latest first, and run from the top when the function is left, by return or by panic.
\<close>

datatype deferred = Defer_EndRequest Context | Defer_span_End Span

fun run_deferred_call :: "Telemetry \<Rightarrow> deferred \<Rightarrow> otel \<Rightarrow> otel" where
  "run_deferred_call tel (Defer_EndRequest ctx) s = EndRequest tel ctx s"
| "run_deferred_call tel (Defer_span_End span) s = call (Span_End span) s"

definition run_deferred :: "Telemetry \<Rightarrow> deferred list \<Rightarrow> otel \<Rightarrow> otel" where
  "run_deferred tel stack s = fold (run_deferred_call tel) stack s"

text \<open>
  The handler function that \<open>TracingMiddleware tel next\<close> returns, applied to a writer
  and a request. \<open>since\<close> is the value that \<open>time.Since(start)\<close> has when it is
  evaluated. The result is the underlying writer and the SDK state when the function is
  left, and whether it is left by return or by a panic that propagates to the caller;
  the middleware has no \<open>recover\<close>.
\<close>

definition TracingMiddleware ::
  "Telemetry \<Rightarrow> Handler \<Rightarrow> Duration \<Rightarrow> ResponseWriter \<Rightarrow> Request \<Rightarrow> otel
     \<Rightarrow> (ResponseWriter \<times> otel) \<times> outcome" where
  "TracingMiddleware tel next since w r s =
     (let s = StartRequest tel (Context r) s;
          stack = [Defer_EndRequest (Context r)];
          (span, s) = Tracer_Start_call (Context r) (URL_Path r) SpanKindServer
                        (request_attributes r) s;
          ctx = Some span;
          stack = Defer_span_End span # stack;
          rw = newResponseWriter w;
          traceID = TraceID span;
          rw = m_Header_modify responseWriter_methods (Header_Set ''X-Trace-ID'' traceID) rw;
          ((rw, s), out) = ServeHTTP responseWriter_methods next rw (r\<lparr>Context := ctx\<rparr>) s
      in (case out of
            Panicked v \<Rightarrow> ((ResponseWriter rw, run_deferred tel stack s), Panicked v)
          | Returned \<Rightarrow>
             (let duration = since;
                  s = call (Span_SetAttributes span
                        [attribute_Int ''http.status_code'' (statusCode rw),
                         attribute_Int64 ''http.response_size'' (written rw),
                         attribute_Float64 ''http.duration_ms''
                           (float64_of_int64 (Duration_Milliseconds duration))]) s;
                  s = (if statusCode rw \<ge> 400
                       then call (Span_SetAttributes span [attribute_Bool ''error'' True]) s
                       else s);
                  s = RecordRequest tel ctx (Method r) (URL_Path r) (statusCode rw) duration s
              in ((ResponseWriter rw, run_deferred tel stack s), Returned))))"

section \<open>Package main\<close>

definition healthHandler :: Handler where
  \<open>healthHandler r =
     Call_Header_Set ''Content-Type'' ''application/json''
       (Call_WriteHeader 200
          (Call_Write ''{"status":"healthy","service":"sample-web-app"}'' (\<lambda>n err. Return)))\<close>

text \<open>
  \<open>trace.SpanFromContext(ctx).SetAttributes(...)\<close>: a context without a span yields a
  no-op span, on which the call has no effect.
\<close>

definition SpanFromContext_SetAttributes :: "Context \<Rightarrow> KeyValue list \<Rightarrow> handler_prog \<Rightarrow> handler_prog" where
  "SpanFromContext_SetAttributes ctx attrs p =
     (case ctx of None \<Rightarrow> p | Some span \<Rightarrow> Call_SDK (Span_SetAttributes span attrs) p)"

text \<open>
  The local variables \<open>ready\<close> and \<open>checks\<close> of \<open>readinessHandler\<close> after its two
  checks. The package variables \<open>tel\<close> and \<open>templates\<close> are parameters;
  \<open>templates\<close> is given as whether it is non-nil.
\<close>

definition readiness_checks :: "Telemetry option \<Rightarrow> bool \<Rightarrow> bool \<times> (string \<rightharpoonup> string)" where
  "readiness_checks tel templates =
     (let ready = True;
          checks = [''templates'' \<mapsto> ''ok''];
          (ready, checks) = (if \<not> templates
                             then (False, checks(''templates'' \<mapsto> ''not loaded''))
                             else (ready, checks));
          checks = (if tel \<noteq> None
                    then checks(''telemetry'' \<mapsto> ''ok'')
                    else checks(''telemetry'' \<mapsto> ''disabled''))
      in (ready, checks))"

definition readinessHandler :: "Telemetry option \<Rightarrow> bool \<Rightarrow> Handler" where
  \<open>readinessHandler tel templates r =
     (let ctx = Context r;
          (ready, checks) = readiness_checks tel templates;
          respond =
            Call_Header_Set ''Content-Type'' ''application/json''
              (if ready
               then Call_WriteHeader 200
                      (Call_Write ''{"status":"ready","checks":{"templates":"ok"}}''
                         (\<lambda>n err. Return))
               else Call_WriteHeader 503
                      (Call_Write ''{"status":"not ready","checks":{"templates":"failed"}}''
                         (\<lambda>n err. Return)))
      in if tel \<noteq> None
         then SpanFromContext_SetAttributes ctx [attribute_Bool ''readiness.ready'' ready] respond
         else respond)\<close>

text \<open>
  The router of \<open>main\<close> with its four registered patterns, for a request path in
  canonical form: the three exact patterns match their own path, the pattern \<open>/\<close>
  matches every other path. \<open>homeHandler\<close> and \<open>echoHandler\<close> render templates and parse
  forms; they are taken as parameters.
\<close>

definition mux :: "Handler \<Rightarrow> Handler \<Rightarrow> Telemetry option \<Rightarrow> bool \<Rightarrow> Handler" where
  "mux homeHandler echoHandler tel templates r =
     (if URL_Path r = ''/echo'' then echoHandler r
      else if URL_Path r = ''/health'' then healthHandler r
      else if URL_Path r = ''/ready'' then readinessHandler tel templates r
      else homeHandler r)"

text \<open>
  What \<open>main\<close> computes before it starts to listen: the package variable \<open>tel\<close>
  (\<open>nil\<close> when \<open>Initialize\<close> failed), the lines logged, and the address of the server.
\<close>

record server =
  srv_tel :: "Telemetry option"
  srv_Addr :: string
  srv_log :: "string list"

definition listen_port :: "environ \<Rightarrow> string" where
  "listen_port env = (let port = os_Getenv env ''PORT'' in if port = [] then ''8080'' else port)"

definition main :: "environ \<Rightarrow> init_results \<Rightarrow> otel \<Rightarrow> server \<times> otel" where
  "main env ext s =
     (let cfg = NewConfig env;
          (res, s) = Initialize ext cfg s;
          (tel, log) =
            (case res of
               Inl err \<Rightarrow>
                 (None, [''Warning: Failed to initialize telemetry: '' @ err
                           @ '' (continuing without telemetry)''])
             | Inr t \<Rightarrow>
                 (Some t, [''Telemetry initialized - Service: '' @ ServiceName cfg
                             @ '', Endpoint: '' @ OTLPEndpoint cfg]));
          port = listen_port env
      in (\<lparr> srv_tel = tel, srv_Addr = '':'' @ port,
             srv_log = log @ [''Server starting on port '' @ port] \<rparr>, s))"

text \<open>
  The handler installed in the server: the router itself when \<open>tel\<close> is \<open>nil\<close>, the
  router wrapped by the middleware otherwise.
\<close>

definition main_handler ::
  "Telemetry option \<Rightarrow> Handler \<Rightarrow> Duration \<Rightarrow> ResponseWriter \<Rightarrow> Request \<Rightarrow> otel
     \<Rightarrow> (ResponseWriter \<times> otel) \<times> outcome" where
  "main_handler tel router since w r s =
     (case tel of
        None \<Rightarrow> ServeHTTP plain_methods router w r s
      | Some t \<Rightarrow> TracingMiddleware t router since w r s)"

section \<open>Vocabulary of the properties\<close>

subsection \<open>The request as the middleware hands it to the wrapped handler\<close>

text \<open>
  The span that the middleware starts, and the SDK state, the writer and the request
  with which \<open>next.ServeHTTP\<close> is called.
\<close>

definition request_span :: "Telemetry \<Rightarrow> Request \<Rightarrow> otel \<Rightarrow> Span" where
  "request_span tel r s =
     fst (Tracer_Start_call (Context r) (URL_Path r) SpanKindServer (request_attributes r)
            (StartRequest tel (Context r) s))"

definition handler_state :: "Telemetry \<Rightarrow> Request \<Rightarrow> otel \<Rightarrow> otel" where
  "handler_state tel r s =
     snd (Tracer_Start_call (Context r) (URL_Path r) SpanKindServer (request_attributes r)
            (StartRequest tel (Context r) s))"

definition handler_writer :: "Telemetry \<Rightarrow> ResponseWriter \<Rightarrow> Request \<Rightarrow> otel \<Rightarrow> responseWriter" where
  "handler_writer tel w r s =
     m_Header_modify responseWriter_methods
       (Header_Set ''X-Trace-ID'' (TraceID (request_span tel r s))) (newResponseWriter w)"

definition handler_request :: "Telemetry \<Rightarrow> Request \<Rightarrow> otel \<Rightarrow> Request" where
  "handler_request tel r s = r\<lparr>Context := Some (request_span tel r s)\<rparr>"

definition handler_result ::
  "Telemetry \<Rightarrow> Handler \<Rightarrow> ResponseWriter \<Rightarrow> Request \<Rightarrow> otel
     \<Rightarrow> (responseWriter \<times> otel) \<times> outcome" where
  "handler_result tel next w r s =
     ServeHTTP responseWriter_methods next (handler_writer tel w r s)
       (handler_request tel r s) (handler_state tel r s)"

text \<open>
  The SDK calls made during one request: all of them, and those that the wrapped
  handler made itself while it ran.
\<close>

definition request_calls ::
  "Telemetry \<Rightarrow> Handler \<Rightarrow> Duration \<Rightarrow> ResponseWriter \<Rightarrow> Request \<Rightarrow> otel \<Rightarrow> sdk_call list" where
  "request_calls tel next since w r s =
     drop (length (calls s)) (calls (snd (fst (TracingMiddleware tel next since w r s))))"

definition handler_calls ::
  "Telemetry \<Rightarrow> Handler \<Rightarrow> ResponseWriter \<Rightarrow> Request \<Rightarrow> otel \<Rightarrow> sdk_call list" where
  "handler_calls tel next w r s =
     drop (length (calls (handler_state tel r s)))
       (calls (snd (fst (handler_result tel next w r s))))"

fun is_span_lifecycle :: "sdk_call \<Rightarrow> bool" where
  "is_span_lifecycle (Tracer_Start sp n k a) = True"
| "is_span_lifecycle (Span_End sp) = True"
| "is_span_lifecycle c = False"

fun is_gauge_call :: "Instrument \<Rightarrow> sdk_call \<Rightarrow> bool" where
  "is_gauge_call g (UpDownCounter_Add i d) = (i = g)"
| "is_gauge_call g c = False"

fun gauge_delta :: "Instrument \<Rightarrow> sdk_call \<Rightarrow> int" where
  "gauge_delta g (UpDownCounter_Add i d) = (if i = g then d else 0)"
| "gauge_delta g c = 0"

definition gauge_value :: "Instrument \<Rightarrow> sdk_call list \<Rightarrow> int" where
  "gauge_value g cs = sum_list (map (gauge_delta g) cs)"

text \<open>The calls on a given span other than its start and its end, and the recordings on the request instruments.\<close>

fun is_finalization_call :: "Telemetry \<Rightarrow> Span \<Rightarrow> sdk_call \<Rightarrow> bool" where
  "is_finalization_call tel span (Span_SetAttributes sp a) = (sp = span)"
| "is_finalization_call tel span (Counter_Add i d a) = (i = RequestCounter tel \<or> i = ErrorCounter tel)"
| "is_finalization_call tel span (Float64Histogram_Record i v a) = (i = RequestDuration tel)"
| "is_finalization_call tel span c = False"

subsection \<open>What a response writer has been asked to do\<close>

text \<open>
  The status code of the latest \<open>WriteHeader\<close> among some calls, or a default when
  there is none; and the total of the byte counts that the underlying writer returned
  for the \<open>Write\<close> calls among them, given the calls it had received before.
\<close>

fun latest_status :: "int \<Rightarrow> w_call list \<Rightarrow> int" where
  "latest_status d [] = d"
| "latest_status d (W_WriteHeader code # cs) = latest_status code cs"
| "latest_status d (W_Write b # cs) = latest_status d cs"

fun total_written :: "(w_call list \<Rightarrow> string \<Rightarrow> int \<times> string option) \<Rightarrow> w_call list \<Rightarrow> w_call list \<Rightarrow> int" where
  "total_written f before [] = 0"
| "total_written f before (W_WriteHeader code # cs) = total_written f (before @ [W_WriteHeader code]) cs"
| "total_written f before (W_Write b # cs) = fst (f before b) + total_written f (before @ [W_Write b]) cs"

definition new_received :: "ResponseWriter \<Rightarrow> ResponseWriter \<Rightarrow> (w_call \<times> http_Header) list" where
  "new_received w w' = drop (length (received w)) (received w')"

text \<open>The canonical header keys on which a handler calls \<open>Set\<close>, \<open>Add\<close> or \<open>Del\<close> while it runs.\<close>

primrec modified_keys ::
  "'w ResponseWriter_methods \<Rightarrow> handler_prog \<Rightarrow> 'w \<Rightarrow> otel \<Rightarrow> string list" where
  "modified_keys m Return = (\<lambda>w s. [])"
| "modified_keys m (Panic v) = (\<lambda>w s. [])"
| "modified_keys m (Call_Header_Set k v p) =
     (\<lambda>w s. CanonicalMIMEHeaderKey k # modified_keys m p (m_Header_modify m (Header_Set k v) w) s)"
| "modified_keys m (Call_Header_Add k v p) =
     (\<lambda>w s. CanonicalMIMEHeaderKey k # modified_keys m p (m_Header_modify m (Header_Add k v) w) s)"
| "modified_keys m (Call_Header_Del k p) =
     (\<lambda>w s. CanonicalMIMEHeaderKey k # modified_keys m p (m_Header_modify m (Header_Del k) w) s)"
| "modified_keys m (Call_Header_Get k f) = (\<lambda>w s. modified_keys m (f (Header_Get (m_Header m w) k)) w s)"
| "modified_keys m (Call_WriteHeader code p) = (\<lambda>w s. modified_keys m p (m_WriteHeader m code w) s)"
| "modified_keys m (Call_Write b f) =
     (\<lambda>w s. case m_Write m b w of ((n, err), w') \<Rightarrow> modified_keys m (f n err) w' s)"
| "modified_keys m (Call_Tracer_Start ctx name kind attrs f) =
     (\<lambda>w s. case Tracer_Start_call ctx name kind attrs s of (span, s') \<Rightarrow> modified_keys m (f span) w s')"
| "modified_keys m (Call_SDK c p) = (\<lambda>w s. modified_keys m p w (call c s))"

text \<open>
  The relation between a wrapper \<open>rw\<close>, the calls \<open>X\<close> that its underlying writer
  receives afterwards, and the wrapper \<open>rw'\<close> reached: the status is that of the latest
  \<open>WriteHeader\<close> and the counter has grown by the byte counts returned.
\<close>

definition captured :: "responseWriter \<Rightarrow> (w_call \<times> http_Header) list \<Rightarrow> responseWriter \<Rightarrow> bool" where
  "captured rw X rw' \<longleftrightarrow>
     received (ResponseWriter rw') = received (ResponseWriter rw) @ X
     \<and> Write_result (ResponseWriter rw') = Write_result (ResponseWriter rw)
     \<and> statusCode rw' = latest_status (statusCode rw) (map fst X)
     \<and> written rw' = written rw
         + word_of_int (total_written (Write_result (ResponseWriter rw))
                          (map fst (received (ResponseWriter rw))) (map fst X))"

text \<open>
  The same for one header key \<open>hk\<close>: its entry is the same in \<open>rw'\<close> as in \<open>rw\<close>, and
  was so whenever the underlying writer received a call.
\<close>

definition kept :: "string \<Rightarrow> responseWriter \<Rightarrow> (w_call \<times> http_Header) list \<Rightarrow> responseWriter \<Rightarrow> bool" where
  "kept hk rw X rw' \<longleftrightarrow>
     received (ResponseWriter rw') = received (ResponseWriter rw) @ X
     \<and> Header (ResponseWriter rw') hk = Header (ResponseWriter rw) hk
     \<and> list_all (\<lambda>e. snd e hk = Header (ResponseWriter rw) hk) X"

subsection \<open>The calls of the finalization step\<close>

text \<open>
  The calls that lines 68 to 81 of the middleware make for a span, a captured status and
  byte count, and a duration: the three span attributes, the error attribute for a status
  of 400 or more, and the recordings of \<open>RecordRequest\<close>.
\<close>

definition finalization_calls ::
  "Telemetry \<Rightarrow> Span \<Rightarrow> Request \<Rightarrow> int \<Rightarrow> 64 word \<Rightarrow> Duration \<Rightarrow> sdk_call list" where
  "finalization_calls tel span r status sz since =
     [Span_SetAttributes span
        [(''http.status_code'', Int64Value status),
         (''http.response_size'', Int64Value (sint sz)),
         (''http.duration_ms'', Float64Value (float64_of_int64 (Duration_Milliseconds since)))]]
     @ (if status \<ge> 400 then [Span_SetAttributes span [(''error'', BoolValue True)]] else [])
     @ [Counter_Add (RequestCounter tel) 1
          [(''http.method'', StringValue (Method r)), (''http.route'', StringValue (URL_Path r)),
           (''http.status_code'', Int64Value status)],
        Float64Histogram_Record (RequestDuration tel) (Duration_Seconds since)
          [(''http.method'', StringValue (Method r)), (''http.route'', StringValue (URL_Path r)),
           (''http.status_code'', Int64Value status)]]
     @ (if status \<ge> 400
        then [Counter_Add (ErrorCounter tel) 1
                [(''http.method'', StringValue (Method r)), (''http.route'', StringValue (URL_Path r)),
                 (''http.status_code'', Int64Value status)]]
        else [])"

subsection \<open>Concrete inputs\<close>

definition example_resource :: Resource where
  "example_resource =
     \<lparr> res_service_name = ''sample-web-app'', res_service_version = ''1.0.0'',
       res_environment = ''development'', res_sdk_language = ''go'' \<rparr>"

definition example_tp :: TracerProvider where
  "example_tp =
     \<lparr> tp_endpoint = ''localhost:4318'', tp_insecure = True, tp_resource = example_resource,
       tp_batch_timeout_s = 5, tp_max_export_batch_size = 512 \<rparr>"

definition example_mp :: MeterProvider where
  "example_mp =
     \<lparr> mp_endpoint = ''localhost:4318'', mp_insecure = True, mp_resource = example_resource,
       mp_interval_s = 15 \<rparr>"

definition example_tel :: Telemetry where
  "example_tel =
     \<lparr> TracerProvider = Some example_tp,
       MeterProvider = Some example_mp,
       Tracer = ''sample-web-app'',
       Meter = ''sample-web-app'',
       RequestCounter = new_instrument Int64Counter ''http_requests_total''
           ''Total number of HTTP requests'' ''{request}'',
       RequestDuration = new_instrument Float64Histogram ''http_request_duration_seconds''
           ''HTTP request duration in seconds'' ''s'',
       ActiveRequests = new_instrument Int64UpDownCounter ''http_requests_active''
           ''Number of active HTTP requests'' ''{request}'',
       ErrorCounter = new_instrument Int64Counter ''http_errors_total''
           ''Total number of HTTP errors'' ''{error}'',
       MessageLength = new_instrument Int64Histogram ''echo_message_length''
           ''Length of echo messages'' ''{character}'' \<rparr>"

definition example_otel :: otel where
  "example_otel =
     \<lparr> calls = [],
       global_TracerProvider = None,
       global_MeterProvider = None,
       global_TextMapPropagator = None,
       id_generator = (\<lambda>n. ''4bf92f3577b34da6a3ce929d0e0e4736''),
       TracerProvider_Shutdown_result = None,
       MeterProvider_Shutdown_result = None \<rparr>"

definition example_span :: Span where
  "example_span = \<lparr> SpanID = 0, TraceID = ''4bf92f3577b34da6a3ce929d0e0e4736'' \<rparr>"

text \<open>A writer that accepts every byte offered, and a request for a path that has no page.\<close>

definition example_w :: ResponseWriter where
  "example_w =
     \<lparr> Header = Map.empty, received = [],
       Write_result = (\<lambda>history b. (int (length b), None)) \<rparr>"

definition example_r :: Request where
  "example_r =
     \<lparr> Method = ''GET'', URL_Path = ''/missing'', URL_String = ''/missing'',
       Host = ''localhost:8080'', RemoteAddr = ''127.0.0.1:50000'', TLS = False,
       Request_Header = Map.empty, Context = None \<rparr>"

text \<open>
  Three handlers: one sets status 404 and writes nothing, one writes eleven bytes in two
  writes without setting a status, one sets status 500 and panics.
\<close>

definition not_found_handler :: Handler where
  "not_found_handler r = Call_WriteHeader 404 Return"

definition writing_handler :: Handler where
  "writing_handler r = Call_Write ''hello '' (\<lambda>n err. Call_Write ''world'' (\<lambda>n err. Return))"

definition panicking_handler :: Handler where
  "panicking_handler r = Call_WriteHeader 500 (Panic ''boom'')"

text \<open>A handler that sets the status twice and then writes four bytes.\<close>

definition overriding_handler :: Handler where
  "overriding_handler r =
     Call_WriteHeader 200 (Call_WriteHeader 404 (Call_Write ''gone'' (\<lambda>n err. Return)))"

text \<open>A handler that removes the trace header before it writes.\<close>

definition header_removing_handler :: Handler where
  "header_removing_handler r = Call_Header_Del ''x-trace-id'' (Call_WriteHeader 200 Return)"

text \<open>Results of the library calls of \<open>Initialize\<close>: all succeed; only the third instrument fails.\<close>

definition all_succeed :: init_results where
  "all_succeed =
     \<lparr> resource_Merge_err = None, otlptracehttp_New_err = None,
       otlpmetrichttp_New_err = None, Meter_instrument_err = (\<lambda>n. None) \<rparr>"

definition gauge_fails :: init_results where
  "gauge_fails =
     all_succeed\<lparr>Meter_instrument_err :=
       (\<lambda>n. if n = ''http_requests_active'' then Some ''duplicate instrument'' else None)\<rparr>"

definition exporter_fails :: init_results where
  "exporter_fails = all_succeed\<lparr>otlptracehttp_New_err := Some ''invalid endpoint''\<rparr>"

section \<open>Configuration\<close>

text \<open>
  Claim C9. Each of the service name, service version, environment and collector endpoint
  of \<open>NewConfig\<close>, and the port looked up by \<open>main\<close>, takes its default when its
  environment variable is not set; the insecure flag is true unless \<open>OTEL_INSECURE\<close> is
  exactly the string \<open>false\<close>.
\<close>

theorem NewConfig_defaults:
  "(env ''OTEL_SERVICE_NAME'' = None \<longrightarrow> ServiceName (NewConfig env) = ''sample-web-app'')
   \<and> (env ''OTEL_SERVICE_VERSION'' = None \<longrightarrow> ServiceVersion (NewConfig env) = ''1.0.0'')
   \<and> (env ''ENV'' = None \<longrightarrow> Environment (NewConfig env) = ''development'')
   \<and> (env ''OTEL_EXPORTER_OTLP_ENDPOINT'' = None \<longrightarrow> OTLPEndpoint (NewConfig env) = ''localhost:4318'')
   \<and> (env ''PORT'' = None \<longrightarrow> listen_port env = ''8080'')
   \<and> (Insecure (NewConfig env) \<longleftrightarrow> env ''OTEL_INSECURE'' \<noteq> Some ''false'')"
  by (auto simp add: NewConfig_def listen_port_def os_Getenv_def Let_def split: option.splits)

theorem NewConfig_defaults_witness:
  "NewConfig Map.empty =
     \<lparr> ServiceName = ''sample-web-app'', ServiceVersion = ''1.0.0'',
       Environment = ''development'', OTLPEndpoint = ''localhost:4318'', Insecure = True \<rparr>
   \<and> listen_port Map.empty = ''8080''
   \<and> \<not> Insecure (NewConfig [''OTEL_INSECURE'' \<mapsto> ''false''])
   \<and> Insecure (NewConfig [''OTEL_INSECURE'' \<mapsto> ''False''])"
  using NewConfig_defaults [of Map.empty]
    NewConfig_defaults [of "[''OTEL_INSECURE'' \<mapsto> ''false'']"]
    NewConfig_defaults [of "[''OTEL_INSECURE'' \<mapsto> ''False'']"]
  by simp

section \<open>Recording a request\<close>

text \<open>
  Claim C5. \<open>RecordRequest\<close> adds 1 to the request counter and records one value in the
  duration histogram, both with the attributes method, route and status code, and adds 1
  to the error counter with the same attributes exactly when the status code is 400 or
  more; it does nothing else.
\<close>

theorem RecordRequest_calls:
  "RecordRequest t ctx method path status d s =
     s\<lparr>calls := calls s
        @ [Counter_Add (RequestCounter t) 1
             [(''http.method'', StringValue method), (''http.route'', StringValue path),
              (''http.status_code'', Int64Value status)],
           Float64Histogram_Record (RequestDuration t) (Duration_Seconds d)
             [(''http.method'', StringValue method), (''http.route'', StringValue path),
              (''http.status_code'', Int64Value status)]]
        @ (if status \<ge> 400
           then [Counter_Add (ErrorCounter t) 1
                   [(''http.method'', StringValue method), (''http.route'', StringValue path),
                    (''http.status_code'', Int64Value status)]]
           else [])\<rparr>"
  by (simp add: RecordRequest_def call_def Let_def attribute_String_def attribute_Int_def)

section \<open>Shutdown\<close>

text \<open>
  Claim C7. For a handle with both providers, \<open>Shutdown\<close> calls the shutdown of the
  tracer provider and then that of the meter provider, whatever either returns; it returns
  nil exactly when both return nil, and otherwise one error whose message lists every
  failure.
\<close>

theorem Shutdown_attempts_both:
  assumes "TracerProvider t = Some tp" and "MeterProvider t = Some mp"
  shows "calls (snd (Shutdown t s)) = calls s @ [TracerProvider_Shutdown tp, MeterProvider_Shutdown mp]
     \<and> fst (Shutdown t s) =
        (case (TracerProvider_Shutdown_result s, MeterProvider_Shutdown_result s) of
           (None, None) \<Rightarrow> None
         | (Some e1, None) \<Rightarrow> Some (''shutdown errors: [tracer provider shutdown: '' @ e1 @ '']'')
         | (None, Some e2) \<Rightarrow> Some (''shutdown errors: [meter provider shutdown: '' @ e2 @ '']'')
         | (Some e1, Some e2) \<Rightarrow>
             Some (''shutdown errors: [tracer provider shutdown: '' @ e1
                     @ '' meter provider shutdown: '' @ e2 @ '']''))
     \<and> (fst (Shutdown t s) = None \<longleftrightarrow>
          TracerProvider_Shutdown_result s = None \<and> MeterProvider_Shutdown_result s = None)"
  using assms
  by (auto simp add: Shutdown_def call_def Let_def fmt_errs_def split: option.splits)

theorem Shutdown_attempts_both_witness:
  "TracerProvider example_tel = Some example_tp \<and> MeterProvider example_tel = Some example_mp
   \<and> Shutdown example_tel
        (example_otel\<lparr>TracerProvider_Shutdown_result := Some ''context deadline exceeded'',
                      MeterProvider_Shutdown_result := Some ''context deadline exceeded''\<rparr>)
      = (Some ''shutdown errors: [tracer provider shutdown: context deadline exceeded meter provider shutdown: context deadline exceeded]'',
         example_otel\<lparr>TracerProvider_Shutdown_result := Some ''context deadline exceeded'',
                      MeterProvider_Shutdown_result := Some ''context deadline exceeded'',
                      calls := [TracerProvider_Shutdown example_tp, MeterProvider_Shutdown example_mp]\<rparr>)"
  using Shutdown_attempts_both [of example_tel example_tp example_mp
      "example_otel\<lparr>TracerProvider_Shutdown_result := Some ''context deadline exceeded'',
                    MeterProvider_Shutdown_result := Some ''context deadline exceeded''\<rparr>"]
  by (simp add: example_tel_def example_otel_def Shutdown_def call_def fmt_errs_def)

text \<open>When only the tracer provider fails, the meter provider is shut down all the same.\<close>

lemma Shutdown_after_tracer_failure:
  "Shutdown example_tel (example_otel\<lparr>TracerProvider_Shutdown_result := Some ''timeout''\<rparr>)
     = (Some ''shutdown errors: [tracer provider shutdown: timeout]'',
        example_otel\<lparr>TracerProvider_Shutdown_result := Some ''timeout'',
                     calls := [TracerProvider_Shutdown example_tp,
                               MeterProvider_Shutdown example_mp]\<rparr>)"
  by (simp add: example_tel_def example_otel_def Shutdown_def call_def fmt_errs_def)

section \<open>Initialize\<close>

text \<open>
  Claim C10. When the resource and both providers are constructed and the registration of
  one of the five instruments fails, \<open>Initialize\<close> returns an error and no handle, and
  the global tracer provider, meter provider and propagator are the newly constructed
  ones: they were set before the instruments were registered and are not reset.
\<close>

theorem Initialize_globals_remain_set:
  assumes "resource_Merge_err ext = None"
    and "otlptracehttp_New_err ext = None"
    and "otlpmetrichttp_New_err ext = None"
    and "list_ex (\<lambda>n. Meter_instrument_err ext n \<noteq> None)
           [''http_requests_total'', ''http_request_duration_seconds'', ''http_requests_active'',
            ''http_errors_total'', ''echo_message_length'']"
  shows "(\<exists>e. fst (Initialize ext cfg s) = Inl (''failed to initialize metrics: '' @ e))
    \<and> snd (Initialize ext cfg s) =
        s\<lparr>global_TracerProvider :=
            Some \<lparr> tp_endpoint = OTLPEndpoint cfg, tp_insecure = Insecure cfg,
                   tp_resource = \<lparr> res_service_name = ServiceName cfg,
                                   res_service_version = ServiceVersion cfg,
                                   res_environment = Environment cfg,
                                   res_sdk_language = ''go'' \<rparr>,
                   tp_batch_timeout_s = 5, tp_max_export_batch_size = 512 \<rparr>,
          global_MeterProvider :=
            Some \<lparr> mp_endpoint = OTLPEndpoint cfg, mp_insecure = Insecure cfg,
                   mp_resource = \<lparr> res_service_name = ServiceName cfg,
                                   res_service_version = ServiceVersion cfg,
                                   res_environment = Environment cfg,
                                   res_sdk_language = ''go'' \<rparr>,
                   mp_interval_s = 15 \<rparr>,
          global_TextMapPropagator := Some [''TraceContext'', ''Baggage'']\<rparr>"
  using assms
  by (auto simp add: Initialize_def initTracerProvider_def initMeterProvider_def initMetrics_def
      Let_def split: option.splits)

theorem Initialize_globals_remain_set_witness:
  "fst (Initialize gauge_fails (NewConfig Map.empty) example_otel)
     = Inl ''failed to initialize metrics: duplicate instrument''
   \<and> global_TracerProvider (snd (Initialize gauge_fails (NewConfig Map.empty) example_otel))
     = Some example_tp
   \<and> global_MeterProvider (snd (Initialize gauge_fails (NewConfig Map.empty) example_otel))
     = Some example_mp
   \<and> global_TextMapPropagator (snd (Initialize gauge_fails (NewConfig Map.empty) example_otel))
     = Some [''TraceContext'', ''Baggage'']
   \<and> global_TracerProvider example_otel = None"
  using Initialize_globals_remain_set [of gauge_fails "NewConfig Map.empty" example_otel]
  by (simp add: gauge_fails_def all_succeed_def example_otel_def example_tp_def example_mp_def
      example_resource_def NewConfig_def os_Getenv_def Initialize_def initTracerProvider_def
      initMeterProvider_def initMetrics_def Let_def)

section \<open>Auxiliary facts\<close>

lemma sint_word_of_int_in_range:
  "- (2 ^ 63) \<le> x \<Longrightarrow> x < 2 ^ 63 \<Longrightarrow> sint (word_of_int x :: 64 word) = x"
  by (simp add: signed_of_int signed_take_bit_int_eq_self)

section \<open>Running a handler\<close>

lemma Tracer_Start_call_calls:
  "calls (snd (Tracer_Start_call ctx name kind attrs s)) =
     calls s @ [Tracer_Start (fst (Tracer_Start_call ctx name kind attrs s)) name kind attrs]"
  by (simp add: Tracer_Start_call_def Let_def call_def)

lemma run_calls_prefix: "\<exists>cs. calls (snd (fst (run m p w s))) = calls s @ cs"
proof (induction p arbitrary: w s)
  case (Call_Write b f)
  show ?case
  proof (cases "m_Write m b w")
    case (Pair res w')
    obtain n err where res: "res = (n, err)" by (cases res)
    from Call_Write [of "f n" "f n err" w' s] show ?thesis
      by (simp add: Pair res)
  qed
next
  case (Call_Tracer_Start ctx name kind attrs f)
  show ?case
  proof (cases "Tracer_Start_call ctx name kind attrs s")
    case (Pair span s')
    from Call_Tracer_Start [of "f span" w s'] obtain cs where
      "calls (snd (fst (run m (f span) w s'))) = calls s' @ cs" by auto
    moreover have "calls s' = calls s @ [Tracer_Start span name kind attrs]"
      using Tracer_Start_call_calls [of ctx name kind attrs s] by (simp add: Pair)
    ultimately show ?thesis by (simp add: Pair)
  qed
next
  case (Call_SDK c p)
  from Call_SDK [of w "call c s"] show ?case by (auto simp add: call_def)
qed auto

lemma run_calls_drop:
  "calls (snd (fst (run m p w s))) =
     calls s @ drop (length (calls s)) (calls (snd (fst (run m p w s))))"
  using run_calls_prefix [of m p w s] by auto

section \<open>The middleware in terms of the handler's run\<close>

lemma TracingMiddleware_unfold:
  "TracingMiddleware tel next since w r s =
     (let span = request_span tel r s;
          hr = handler_result tel next w r s;
          rw = fst (fst hr);
          sh = snd (fst hr);
          stack = [Defer_span_End span, Defer_EndRequest (Context r)]
      in case snd hr of
           Panicked v \<Rightarrow> ((ResponseWriter rw, run_deferred tel stack sh), Panicked v)
         | Returned \<Rightarrow>
            ((ResponseWriter rw,
              run_deferred tel stack
                (RecordRequest tel (Some span) (Method r) (URL_Path r) (statusCode rw) since
                   ((if statusCode rw \<ge> 400
                     then call (Span_SetAttributes span [attribute_Bool ''error'' True])
                     else id)
                      (call (Span_SetAttributes span
                         [attribute_Int ''http.status_code'' (statusCode rw),
                          attribute_Int64 ''http.response_size'' (written rw),
                          attribute_Float64 ''http.duration_ms''
                            (float64_of_int64 (Duration_Milliseconds since))]) sh)))),
             Returned))"
  by (simp add: TracingMiddleware_def handler_result_def handler_writer_def handler_request_def
      handler_state_def request_span_def Let_def split_def split: outcome.splits)

lemma TracingMiddleware_writer:
  "fst (fst (TracingMiddleware tel next since w r s)) =
     ResponseWriter (fst (fst (handler_result tel next w r s)))"
  unfolding TracingMiddleware_unfold Let_def by (simp split: outcome.splits)

lemma TracingMiddleware_outcome:
  "snd (TracingMiddleware tel next since w r s) = snd (handler_result tel next w r s)"
  unfolding TracingMiddleware_unfold Let_def by (simp split: outcome.splits)

lemma handler_state_calls:
  "calls (handler_state tel r s) =
     calls s @ [UpDownCounter_Add (ActiveRequests tel) 1,
                Tracer_Start (request_span tel r s) (URL_Path r) SpanKindServer (request_attributes r)]"
  by (simp add: handler_state_def request_span_def Tracer_Start_call_calls StartRequest_def call_def)

lemma handler_result_calls:
  "calls (snd (fst (handler_result tel next w r s))) =
     calls (handler_state tel r s) @ handler_calls tel next w r s"
  unfolding handler_calls_def handler_result_def ServeHTTP_def
  by (rule run_calls_drop)

lemma run_deferred_calls:
  "calls (run_deferred tel [Defer_span_End span, Defer_EndRequest ctx] s) =
     calls s @ [Span_End span, UpDownCounter_Add (ActiveRequests tel) (- 1)]"
  by (simp add: run_deferred_def EndRequest_def call_def)

lemma RecordRequest_appends:
  "calls (RecordRequest t ctx method path status d s) =
     calls s
        @ [Counter_Add (RequestCounter t) 1
             [(''http.method'', StringValue method), (''http.route'', StringValue path),
              (''http.status_code'', Int64Value status)],
           Float64Histogram_Record (RequestDuration t) (Duration_Seconds d)
             [(''http.method'', StringValue method), (''http.route'', StringValue path),
              (''http.status_code'', Int64Value status)]]
        @ (if status \<ge> 400
           then [Counter_Add (ErrorCounter t) 1
                   [(''http.method'', StringValue method), (''http.route'', StringValue path),
                    (''http.status_code'', Int64Value status)]]
           else [])"
  by (simp add: RecordRequest_def call_def Let_def attribute_String_def attribute_Int_def)

lemma TracingMiddleware_calls:
  "calls (snd (fst (TracingMiddleware tel next since w r s))) =
     calls s
     @ [UpDownCounter_Add (ActiveRequests tel) 1,
        Tracer_Start (request_span tel r s) (URL_Path r) SpanKindServer (request_attributes r)]
     @ handler_calls tel next w r s
     @ (case snd (handler_result tel next w r s) of
          Panicked v \<Rightarrow> []
        | Returned \<Rightarrow>
            finalization_calls tel (request_span tel r s) r
              (statusCode (fst (fst (handler_result tel next w r s))))
              (written (fst (fst (handler_result tel next w r s)))) since)
     @ [Span_End (request_span tel r s), UpDownCounter_Add (ActiveRequests tel) (- 1)]"
  unfolding TracingMiddleware_unfold Let_def
  by (simp add: run_deferred_calls RecordRequest_appends handler_result_calls handler_state_calls
      finalization_calls_def call_def attribute_Int_def attribute_Int64_def attribute_Float64_def
      attribute_Bool_def split: outcome.splits)

lemma request_calls_eq:
  "request_calls tel next since w r s =
     [UpDownCounter_Add (ActiveRequests tel) 1,
      Tracer_Start (request_span tel r s) (URL_Path r) SpanKindServer (request_attributes r)]
     @ handler_calls tel next w r s
     @ (case snd (handler_result tel next w r s) of
          Panicked v \<Rightarrow> []
        | Returned \<Rightarrow>
            finalization_calls tel (request_span tel r s) r
              (statusCode (fst (fst (handler_result tel next w r s))))
              (written (fst (fst (handler_result tel next w r s)))) since)
     @ [Span_End (request_span tel r s), UpDownCounter_Add (ActiveRequests tel) (- 1)]"
  unfolding request_calls_def by (simp add: TracingMiddleware_calls)

lemma calls_after_request:
  "calls (snd (fst (TracingMiddleware tel next since w r s))) =
     calls s @ request_calls tel next since w r s"
  unfolding request_calls_def by (simp add: TracingMiddleware_calls)

lemma finalization_no_lifecycle:
  "filter is_span_lifecycle (finalization_calls tel span r status sz since) = []"
  by (simp add: finalization_calls_def)

lemma finalization_no_gauge:
  "filter (is_gauge_call g) (finalization_calls tel span r status sz since) = []"
  by (simp add: finalization_calls_def)

lemma gauge_value_append: "gauge_value g (xs @ ys) = gauge_value g xs + gauge_value g ys"
  by (simp add: gauge_value_def)

lemma gauge_value_finalization:
  "gauge_value g (finalization_calls tel span r status sz since) = 0"
  by (simp add: finalization_calls_def gauge_value_def)

section \<open>Span lifecycle\<close>

text \<open>
  Claim C1. Of the calls that start or end a span during one request through the
  middleware, the first is the middleware's single \<open>Tracer.Start\<close> and the last is the
  single \<open>End\<close> of that same span; between them lie only those that the wrapped handler
  made itself. This holds for every handler, whether it returns or panics, and the
  middleware is left the way the handler was left.
\<close>

theorem TracingMiddleware_span_once:
  "filter is_span_lifecycle (request_calls tel next since w r s) =
     Tracer_Start (request_span tel r s) (URL_Path r) SpanKindServer (request_attributes r)
     # filter is_span_lifecycle (handler_calls tel next w r s)
     @ [Span_End (request_span tel r s)]
   \<and> calls (snd (fst (TracingMiddleware tel next since w r s))) =
       calls s @ request_calls tel next since w r s
   \<and> snd (TracingMiddleware tel next since w r s) = snd (handler_result tel next w r s)"
  by (simp add: request_calls_eq calls_after_request TracingMiddleware_outcome
      finalization_no_lifecycle split: outcome.splits)


section \<open>The concrete requests\<close>

lemma example_request_span [simp]: "request_span example_tel example_r example_otel = example_span"
  by (simp add: request_span_def Tracer_Start_call_def StartRequest_def call_def example_r_def
      example_otel_def example_span_def Let_def)

lemma example_path [simp]: "URL_Path example_r = ''/missing''" "Method example_r = ''GET''"
  "Context example_r = None" "calls example_otel = []"
  by (simp_all add: example_r_def example_otel_def)

lemma example_panicking_result [simp]:
  "snd (handler_result example_tel panicking_handler example_w example_r example_otel)
     = Panicked ''boom''"
  "handler_calls example_tel panicking_handler example_w example_r example_otel = []"
  by (simp_all add: handler_calls_def handler_result_def ServeHTTP_def panicking_handler_def)

lemma example_not_found_result [simp]:
  "snd (handler_result example_tel not_found_handler example_w example_r example_otel) = Returned"
  "handler_calls example_tel not_found_handler example_w example_r example_otel = []"
  "statusCode (fst (fst (handler_result example_tel not_found_handler example_w example_r example_otel))) = 404"
  "written (fst (fst (handler_result example_tel not_found_handler example_w example_r example_otel))) = 0"
  by (simp_all add: handler_calls_def handler_result_def ServeHTTP_def not_found_handler_def
      responseWriter_methods_def rw_WriteHeader_def handler_writer_def newResponseWriter_def Let_def)

theorem TracingMiddleware_span_once_witness:
  "filter is_span_lifecycle
     (request_calls example_tel panicking_handler 0 example_w example_r example_otel)
     = [Tracer_Start example_span ''/missing'' SpanKindServer (request_attributes example_r),
        Span_End example_span]
   \<and> snd (TracingMiddleware example_tel panicking_handler 0 example_w example_r example_otel)
     = Panicked ''boom''"
  using TracingMiddleware_span_once [of example_tel panicking_handler 0 example_w example_r example_otel]
  by simp

section \<open>Active requests\<close>

text \<open>
  Claim C2. With \<open>g\<close> the active-request instrument: when the wrapped handler is called,
  the middleware has added +1 to \<open>g\<close> once; over the whole request the calls on \<open>g\<close> are
  that +1, then those of the handler itself, then a single -1, whether the handler returns
  or panics; so the sum of the deltas after the request is the sum before it plus whatever
  the handler added itself.
\<close>

theorem TracingMiddleware_active_requests_paired:
  "filter (is_gauge_call (ActiveRequests tel)) (calls (handler_state tel r s)) =
     filter (is_gauge_call (ActiveRequests tel)) (calls s)
     @ [UpDownCounter_Add (ActiveRequests tel) 1]
   \<and> filter (is_gauge_call (ActiveRequests tel)) (request_calls tel next since w r s) =
       UpDownCounter_Add (ActiveRequests tel) 1
       # filter (is_gauge_call (ActiveRequests tel)) (handler_calls tel next w r s)
       @ [UpDownCounter_Add (ActiveRequests tel) (- 1)]
   \<and> gauge_value (ActiveRequests tel) (calls (snd (fst (TracingMiddleware tel next since w r s)))) =
       gauge_value (ActiveRequests tel) (calls s)
       + gauge_value (ActiveRequests tel) (handler_calls tel next w r s)"
proof (intro conjI)
  show "filter (is_gauge_call (ActiveRequests tel)) (calls (handler_state tel r s)) =
     filter (is_gauge_call (ActiveRequests tel)) (calls s)
     @ [UpDownCounter_Add (ActiveRequests tel) 1]"
    by (simp add: handler_state_calls)
  show "filter (is_gauge_call (ActiveRequests tel)) (request_calls tel next since w r s) =
       UpDownCounter_Add (ActiveRequests tel) 1
       # filter (is_gauge_call (ActiveRequests tel)) (handler_calls tel next w r s)
       @ [UpDownCounter_Add (ActiveRequests tel) (- 1)]"
    by (simp add: request_calls_eq finalization_no_gauge split: outcome.splits)
  show "gauge_value (ActiveRequests tel) (calls (snd (fst (TracingMiddleware tel next since w r s)))) =
       gauge_value (ActiveRequests tel) (calls s)
       + gauge_value (ActiveRequests tel) (handler_calls tel next w r s)"
    unfolding TracingMiddleware_calls gauge_value_append
    by (simp add: gauge_value_finalization split: outcome.splits) (simp add: gauge_value_def)
qed

theorem TracingMiddleware_active_requests_paired_witness:
  "filter (is_gauge_call (ActiveRequests example_tel))
     (request_calls example_tel panicking_handler 0 example_w example_r example_otel)
     = [UpDownCounter_Add (ActiveRequests example_tel) 1,
        UpDownCounter_Add (ActiveRequests example_tel) (- 1)]
   \<and> gauge_value (ActiveRequests example_tel)
       (calls (snd (fst (TracingMiddleware example_tel panicking_handler 0 example_w example_r
                           example_otel))))
     = 0"
  using TracingMiddleware_active_requests_paired
          [of example_tel example_r example_otel panicking_handler 0 example_w]
  by (simp add: gauge_value_def)

section \<open>Finalization\<close>

text \<open>
  Claim C3, as amended. When the wrapped handler returns, the middleware makes, after the
  handler's own calls and before the end of the span, exactly the finalization calls for
  the captured status and byte count and the measured duration: the three span attributes,
  the error attribute when the status is 400 or more, and the recordings of
  \<open>RecordRequest\<close> with that status and duration. When the handler panics, the
  middleware makes none of them: only the span's \<open>End\<close> and \<open>EndRequest\<close> follow the
  handler's calls.
\<close>

theorem TracingMiddleware_finalization_on_return:
  "(snd (handler_result tel next w r s) = Returned \<longrightarrow>
      request_calls tel next since w r s =
        [UpDownCounter_Add (ActiveRequests tel) 1,
         Tracer_Start (request_span tel r s) (URL_Path r) SpanKindServer (request_attributes r)]
        @ handler_calls tel next w r s
        @ finalization_calls tel (request_span tel r s) r
            (statusCode (fst (fst (handler_result tel next w r s))))
            (written (fst (fst (handler_result tel next w r s)))) since
        @ [Span_End (request_span tel r s), UpDownCounter_Add (ActiveRequests tel) (- 1)])
   \<and> (snd (handler_result tel next w r s) = Panicked v \<longrightarrow>
      request_calls tel next since w r s =
        [UpDownCounter_Add (ActiveRequests tel) 1,
         Tracer_Start (request_span tel r s) (URL_Path r) SpanKindServer (request_attributes r)]
        @ handler_calls tel next w r s
        @ [Span_End (request_span tel r s), UpDownCounter_Add (ActiveRequests tel) (- 1)])"
  by (simp add: request_calls_eq)

theorem TracingMiddleware_finalization_on_return_witness:
  "snd (handler_result example_tel not_found_handler example_w example_r example_otel) = Returned
   \<and> request_calls example_tel not_found_handler 2000000 example_w example_r example_otel =
        [UpDownCounter_Add (ActiveRequests example_tel) 1,
         Tracer_Start example_span ''/missing'' SpanKindServer (request_attributes example_r),
         Span_SetAttributes example_span
           [(''http.status_code'', Int64Value 404),
            (''http.response_size'', Int64Value 0),
            (''http.duration_ms'', Float64Value (float64_of_int64 2))],
         Span_SetAttributes example_span [(''error'', BoolValue True)],
         Counter_Add (RequestCounter example_tel) 1
           [(''http.method'', StringValue ''GET''), (''http.route'', StringValue ''/missing''),
            (''http.status_code'', Int64Value 404)],
         Float64Histogram_Record (RequestDuration example_tel) (Duration_Seconds 2000000)
           [(''http.method'', StringValue ''GET''), (''http.route'', StringValue ''/missing''),
            (''http.status_code'', Int64Value 404)],
         Counter_Add (ErrorCounter example_tel) 1
           [(''http.method'', StringValue ''GET''), (''http.route'', StringValue ''/missing''),
            (''http.status_code'', Int64Value 404)],
         Span_End example_span,
         UpDownCounter_Add (ActiveRequests example_tel) (- 1)]
   \<and> snd (handler_result example_tel panicking_handler example_w example_r example_otel)
       = Panicked ''boom''
   \<and> request_calls example_tel panicking_handler 2000000 example_w example_r example_otel =
        [UpDownCounter_Add (ActiveRequests example_tel) 1,
         Tracer_Start example_span ''/missing'' SpanKindServer (request_attributes example_r),
         Span_End example_span,
         UpDownCounter_Add (ActiveRequests example_tel) (- 1)]"
  using TracingMiddleware_finalization_on_return
          [of example_tel not_found_handler example_w example_r example_otel 2000000 "''boom''"]
        TracingMiddleware_finalization_on_return
          [of example_tel panicking_handler example_w example_r example_otel 2000000 "''boom''"]
  by (simp add: finalization_calls_def Duration_Milliseconds_def)

text \<open>
  Claim C3 as stated fails: for a handler that sets status 500 and panics, the request
  ends with a panic and no attribute is set on the request's span and nothing is recorded
  on the request counter, the duration histogram or the error counter.
\<close>

theorem TracingMiddleware_finalization_skipped_on_panic:
  "snd (TracingMiddleware example_tel panicking_handler 2000000 example_w example_r example_otel)
     = Panicked ''boom''
   \<and> filter (is_finalization_call example_tel example_span)
       (request_calls example_tel panicking_handler 2000000 example_w example_r example_otel) = []
   \<and> request_calls example_tel panicking_handler 2000000 example_w example_r example_otel
     = [UpDownCounter_Add (ActiveRequests example_tel) 1,
        Tracer_Start example_span ''/missing'' SpanKindServer (request_attributes example_r),
        Span_End example_span,
        UpDownCounter_Add (ActiveRequests example_tel) (- 1)]"
  by (simp add: request_calls_eq TracingMiddleware_outcome)


section \<open>Response capture\<close>

lemma captured_refl: "captured rw [] rw"
  by (simp add: captured_def)

lemma captured_Header:
  "captured (m_Header_modify responseWriter_methods f rw) X rw' \<Longrightarrow> captured rw X rw'"
  by (simp add: captured_def responseWriter_methods_def)

lemma captured_WriteHeader:
  "captured (rw_WriteHeader code rw) X rw' \<Longrightarrow>
   captured rw ((W_WriteHeader code, Header (ResponseWriter rw)) # X) rw'"
  by (simp add: captured_def rw_WriteHeader_def w_WriteHeader_def Let_def)

lemma captured_Write:
  "captured (snd (rw_Write b rw)) X rw' \<Longrightarrow>
   captured rw ((W_Write b, Header (ResponseWriter rw)) # X) rw'"
  by (simp add: captured_def rw_Write_def w_Write_def Let_def split_def wi_hom_syms)

lemma run_captured: "\<exists>X. captured rw X (fst (fst (run responseWriter_methods p rw s)))"
proof (induction p arbitrary: rw s)
  case Return
  show ?case using captured_refl by auto
next
  case (Panic v)
  show ?case using captured_refl by auto
next
  case (Call_Header_Set k v p)
  from Call_Header_Set [of "m_Header_modify responseWriter_methods (Header_Set k v) rw" s]
  show ?case by (auto dest: captured_Header)
next
  case (Call_Header_Add k v p)
  from Call_Header_Add [of "m_Header_modify responseWriter_methods (Header_Add k v) rw" s]
  show ?case by (auto dest: captured_Header)
next
  case (Call_Header_Del k p)
  from Call_Header_Del [of "m_Header_modify responseWriter_methods (Header_Del k) rw" s]
  show ?case by (auto dest: captured_Header)
next
  case (Call_Header_Get k f)
  from Call_Header_Get [of "f (Header_Get (m_Header responseWriter_methods rw) k)" rw s]
  show ?case by auto
next
  case (Call_WriteHeader code p)
  from Call_WriteHeader [of "rw_WriteHeader code rw" s]
  show ?case by (auto simp add: responseWriter_methods_def dest: captured_WriteHeader)
next
  case (Call_Write b f)
  obtain n err rw1 where w: "rw_Write b rw = ((n, err), rw1)"
    by (cases "rw_Write b rw") auto
  from Call_Write [of "f n" "f n err" rw1 s] obtain X where
    "captured rw1 X (fst (fst (run responseWriter_methods (f n err) rw1 s)))" by auto
  with w have "captured rw ((W_Write b, Header (ResponseWriter rw)) # X)
      (fst (fst (run responseWriter_methods (f n err) rw1 s)))"
    using captured_Write [of b rw X] by simp
  with w show ?case by (auto simp add: responseWriter_methods_def)
next
  case (Call_Tracer_Start ctx name kind attrs f)
  obtain span s' where t: "Tracer_Start_call ctx name kind attrs s = (span, s')"
    by (cases "Tracer_Start_call ctx name kind attrs s")
  from Call_Tracer_Start [of "f span" rw s'] t show ?case by auto
next
  case (Call_SDK c p)
  from Call_SDK [of rw "call c s"] show ?case by auto
qed

lemma run_captured_new:
  "captured rw (new_received (ResponseWriter rw)
                  (ResponseWriter (fst (fst (run responseWriter_methods p rw s)))))
     (fst (fst (run responseWriter_methods p rw s)))"
proof -
  obtain X where X: "captured rw X (fst (fst (run responseWriter_methods p rw s)))"
    using run_captured by blast
  then have "new_received (ResponseWriter rw)
               (ResponseWriter (fst (fst (run responseWriter_methods p rw s)))) = X"
    by (simp add: captured_def new_received_def)
  with X show ?thesis by simp
qed

lemma run_transparent:
  "run plain_methods p (ResponseWriter rw) s =
     ((ResponseWriter (fst (fst (run responseWriter_methods p rw s))),
       snd (fst (run responseWriter_methods p rw s))),
      snd (run responseWriter_methods p rw s))"
proof (induction p arbitrary: rw s)
  case (Call_Write b f)
  obtain n err rw1 where w: "rw_Write b rw = ((n, err), rw1)"
    by (cases "rw_Write b rw") auto
  then have w': "w_Write b (ResponseWriter rw) = ((n, err), ResponseWriter rw1)"
    by (cases "w_Write b (ResponseWriter rw)") (auto simp add: rw_Write_def Let_def split_def)
  from Call_Write [of "f n" "f n err" rw1 s] w w' show ?case
    by (simp add: responseWriter_methods_def plain_methods_def)
next
  case (Call_Tracer_Start ctx name kind attrs f)
  obtain span s' where t: "Tracer_Start_call ctx name kind attrs s = (span, s')"
    by (cases "Tracer_Start_call ctx name kind attrs s")
  from Call_Tracer_Start [of "f span" rw s'] t show ?case by simp
next
  case (Call_Header_Set k v p)
  from Call_Header_Set [of "m_Header_modify responseWriter_methods (Header_Set k v) rw" s]
  show ?case by (simp add: responseWriter_methods_def plain_methods_def)
next
  case (Call_Header_Add k v p)
  from Call_Header_Add [of "m_Header_modify responseWriter_methods (Header_Add k v) rw" s]
  show ?case by (simp add: responseWriter_methods_def plain_methods_def)
next
  case (Call_Header_Del k p)
  from Call_Header_Del [of "m_Header_modify responseWriter_methods (Header_Del k) rw" s]
  show ?case by (simp add: responseWriter_methods_def plain_methods_def)
next
  case (Call_Header_Get k f)
  from Call_Header_Get [of "f (Header_Get (m_Header responseWriter_methods rw) k)" rw s]
  show ?case by (simp add: responseWriter_methods_def plain_methods_def)
next
  case (Call_WriteHeader code p)
  from Call_WriteHeader [of "rw_WriteHeader code rw" s]
  show ?case by (simp add: responseWriter_methods_def plain_methods_def rw_WriteHeader_def Let_def)
next
  case (Call_SDK c p)
  from Call_SDK [of rw "call c s"] show ?case by simp
qed simp_all

text \<open>
  Claim C4. A fresh wrapper has status 200. \<open>WriteHeader\<close> on the wrapper stores the
  code and passes the call to the underlying writer; \<open>Write\<close> passes the bytes to the
  underlying writer, adds the count it returns to \<open>written\<close> and returns its count and
  error as they are. For any handler run on a fresh wrapper: the underlying writer, the
  SDK and the outcome end as if the handler had run on the underlying writer directly; the
  captured status is the code of the latest \<open>WriteHeader\<close>, or 200 if there was none;
  and \<open>written\<close> is the total of the counts returned for the \<open>Write\<close> calls, as a 64-bit
  value, which is that total itself when it fits in an \<open>int64\<close>.
\<close>

theorem responseWriter_captures:
  "newResponseWriter w = \<lparr> ResponseWriter = w, statusCode = 200, written = 0 \<rparr>
   \<and> rw_WriteHeader code rw =
       rw\<lparr>statusCode := code, ResponseWriter := w_WriteHeader code (ResponseWriter rw)\<rparr>
   \<and> fst (rw_Write b rw) = fst (w_Write b (ResponseWriter rw))
   \<and> snd (rw_Write b rw) =
       rw\<lparr>ResponseWriter := snd (w_Write b (ResponseWriter rw)),
          written := written rw + word_of_int (fst (fst (w_Write b (ResponseWriter rw))))\<rparr>
   \<and> run plain_methods p w s =
       ((ResponseWriter (fst (fst (run responseWriter_methods p (newResponseWriter w) s))),
         snd (fst (run responseWriter_methods p (newResponseWriter w) s))),
        snd (run responseWriter_methods p (newResponseWriter w) s))
   \<and> statusCode (fst (fst (run responseWriter_methods p (newResponseWriter w) s))) =
       latest_status 200
         (map fst (new_received w
            (ResponseWriter (fst (fst (run responseWriter_methods p (newResponseWriter w) s))))))
   \<and> written (fst (fst (run responseWriter_methods p (newResponseWriter w) s))) =
       word_of_int (total_written (Write_result w) (map fst (received w))
         (map fst (new_received w
            (ResponseWriter (fst (fst (run responseWriter_methods p (newResponseWriter w) s)))))))
   \<and> (- (2 ^ 63) \<le> total_written (Write_result w) (map fst (received w))
         (map fst (new_received w
            (ResponseWriter (fst (fst (run responseWriter_methods p (newResponseWriter w) s))))))
      \<and> total_written (Write_result w) (map fst (received w))
         (map fst (new_received w
            (ResponseWriter (fst (fst (run responseWriter_methods p (newResponseWriter w) s))))))
        < 2 ^ 63
      \<longrightarrow> sint (written (fst (fst (run responseWriter_methods p (newResponseWriter w) s)))) =
          total_written (Write_result w) (map fst (received w))
            (map fst (new_received w
               (ResponseWriter (fst (fst (run responseWriter_methods p (newResponseWriter w) s)))))))"
proof -
  let ?rw = "fst (fst (run responseWriter_methods p (newResponseWriter w) s))"
  have c: "captured (newResponseWriter w) (new_received w (ResponseWriter ?rw)) ?rw"
    using run_captured_new [of "newResponseWriter w" p s] by (simp add: newResponseWriter_def)
  have t: "run plain_methods p w s =
      ((ResponseWriter ?rw, snd (fst (run responseWriter_methods p (newResponseWriter w) s))),
       snd (run responseWriter_methods p (newResponseWriter w) s))"
    using run_transparent [of p "newResponseWriter w" s] by (simp add: newResponseWriter_def)
  have st: "statusCode ?rw = latest_status 200 (map fst (new_received w (ResponseWriter ?rw)))"
    using c by (simp add: captured_def newResponseWriter_def)
  have wr: "written ?rw = word_of_int (total_written (Write_result w) (map fst (received w))
      (map fst (new_received w (ResponseWriter ?rw))))"
    using c by (simp add: captured_def newResponseWriter_def)
  have a: "newResponseWriter w = \<lparr> ResponseWriter = w, statusCode = 200, written = 0 \<rparr>"
    by (simp add: newResponseWriter_def)
  have b1: "rw_WriteHeader code rw =
       rw\<lparr>statusCode := code, ResponseWriter := w_WriteHeader code (ResponseWriter rw)\<rparr>"
    by (simp add: rw_WriteHeader_def Let_def)
  have b2: "fst (rw_Write b rw) = fst (w_Write b (ResponseWriter rw))"
    by (simp add: rw_Write_def Let_def split_def)
  have b3: "snd (rw_Write b rw) =
       rw\<lparr>ResponseWriter := snd (w_Write b (ResponseWriter rw)),
          written := written rw + word_of_int (fst (fst (w_Write b (ResponseWriter rw))))\<rparr>"
    by (simp add: rw_Write_def Let_def split_def)
  from a b1 b2 b3 t st wr show ?thesis
    by (simp add: sint_word_of_int_in_range)
qed

lemma example_writing_run:
  "run responseWriter_methods (writing_handler example_r) (newResponseWriter example_w) example_otel
     = ((\<lparr> ResponseWriter =
             example_w\<lparr>received := [(W_Write ''hello '', Map.empty), (W_Write ''world'', Map.empty)]\<rparr>,
           statusCode = 200, written = 11 \<rparr>, example_otel), Returned)"
  by (simp add: writing_handler_def responseWriter_methods_def rw_Write_def w_Write_def
      newResponseWriter_def example_w_def Let_def)

lemma example_w_fields [simp]:
  "received example_w = []" "Write_result example_w = (\<lambda>history b. (int (length b), None))"
  "Header example_w = Map.empty"
  by (simp_all add: example_w_def)

theorem responseWriter_captures_witness:
  "total_written (Write_result example_w) (map fst (received example_w))
     [W_Write ''hello '', W_Write ''world''] = 11
   \<and> statusCode (fst (fst (run responseWriter_methods (writing_handler example_r)
                             (newResponseWriter example_w) example_otel))) = 200
   \<and> sint (written (fst (fst (run responseWriter_methods (writing_handler example_r)
                                (newResponseWriter example_w) example_otel)))) = 11
   \<and> map fst (received (fst (fst (run plain_methods (writing_handler example_r) example_w
                                    example_otel))))
       = [W_Write ''hello '', W_Write ''world'']"
proof -
  let ?rw = "fst (fst (run responseWriter_methods (writing_handler example_r)
                         (newResponseWriter example_w) example_otel))"
  have n: "map fst (new_received example_w (ResponseWriter ?rw))
             = [W_Write ''hello '', W_Write ''world'']"
    by (simp add: example_writing_run new_received_def)
  have t: "total_written (Write_result example_w) (map fst (received example_w))
             [W_Write ''hello '', W_Write ''world''] = 11"
    by simp
  from responseWriter_captures [of example_w 0 "newResponseWriter example_w" "[]"
          "writing_handler example_r" example_otel]
  have "run plain_methods (writing_handler example_r) example_w example_otel =
          ((ResponseWriter ?rw,
            snd (fst (run responseWriter_methods (writing_handler example_r)
                        (newResponseWriter example_w) example_otel))),
           snd (run responseWriter_methods (writing_handler example_r)
                  (newResponseWriter example_w) example_otel))"
    and "statusCode ?rw = latest_status 200 (map fst (new_received example_w (ResponseWriter ?rw)))"
    and "- (2 ^ 63) \<le> total_written (Write_result example_w) (map fst (received example_w))
             (map fst (new_received example_w (ResponseWriter ?rw)))
         \<and> total_written (Write_result example_w) (map fst (received example_w))
             (map fst (new_received example_w (ResponseWriter ?rw))) < 2 ^ 63
         \<longrightarrow> sint (written ?rw) =
             total_written (Write_result example_w) (map fst (received example_w))
               (map fst (new_received example_w (ResponseWriter ?rw)))"
    by blast+
  then show ?thesis
    unfolding n by (simp add: example_writing_run)
qed


text \<open>The latest status is captured, not the first.\<close>

lemma overriding_handler_status:
  "statusCode (fst (fst (run responseWriter_methods (overriding_handler example_r)
                           (newResponseWriter example_w) example_otel))) = 404
   \<and> written (fst (fst (run responseWriter_methods (overriding_handler example_r)
                          (newResponseWriter example_w) example_otel))) = 4
   \<and> map fst (received (ResponseWriter (fst (fst (run responseWriter_methods
          (overriding_handler example_r) (newResponseWriter example_w) example_otel)))))
       = [W_WriteHeader 200, W_WriteHeader 404, W_Write ''gone'']"
  by (simp add: overriding_handler_def responseWriter_methods_def rw_WriteHeader_def rw_Write_def
      w_WriteHeader_def w_Write_def newResponseWriter_def Let_def)

section \<open>The trace header\<close>

lemma canonical_trace_key [simp]: "CanonicalMIMEHeaderKey ''X-Trace-ID'' = ''X-Trace-Id''"
  by (simp add: CanonicalMIMEHeaderKey_def validHeaderFieldByte_def to_upper_def to_lower_def
      lower_letters_def upper_letters_def)

lemma kept_refl: "kept hk rw [] rw"
  by (simp add: kept_def)

lemma kept_Set:
  "CanonicalMIMEHeaderKey k \<noteq> hk \<Longrightarrow>
   kept hk (m_Header_modify responseWriter_methods (Header_Set k v) rw) X rw' \<Longrightarrow> kept hk rw X rw'"
  by (simp add: kept_def responseWriter_methods_def Header_Set_def)

lemma kept_Add:
  "CanonicalMIMEHeaderKey k \<noteq> hk \<Longrightarrow>
   kept hk (m_Header_modify responseWriter_methods (Header_Add k v) rw) X rw' \<Longrightarrow> kept hk rw X rw'"
  by (simp add: kept_def responseWriter_methods_def Header_Add_def)

lemma kept_Del:
  "CanonicalMIMEHeaderKey k \<noteq> hk \<Longrightarrow>
   kept hk (m_Header_modify responseWriter_methods (Header_Del k) rw) X rw' \<Longrightarrow> kept hk rw X rw'"
  by (simp add: kept_def responseWriter_methods_def Header_Del_def)

lemma kept_WriteHeader:
  "kept hk (rw_WriteHeader code rw) X rw' \<Longrightarrow>
   kept hk rw ((W_WriteHeader code, Header (ResponseWriter rw)) # X) rw'"
  by (simp add: kept_def rw_WriteHeader_def w_WriteHeader_def Let_def)

lemma kept_Write:
  "kept hk (snd (rw_Write b rw)) X rw' \<Longrightarrow>
   kept hk rw ((W_Write b, Header (ResponseWriter rw)) # X) rw'"
  by (simp add: kept_def rw_Write_def w_Write_def Let_def split_def)

lemma run_kept:
  "hk \<notin> set (modified_keys responseWriter_methods p rw s) \<Longrightarrow>
   \<exists>X. kept hk rw X (fst (fst (run responseWriter_methods p rw s)))"
proof (induction p arbitrary: rw s)
  case Return
  show ?case using kept_refl by auto
next
  case (Panic v)
  show ?case using kept_refl by auto
next
  case (Call_Header_Set k v p)
  from Call_Header_Set.prems have ne: "CanonicalMIMEHeaderKey k \<noteq> hk"
    and rest: "hk \<notin> set (modified_keys responseWriter_methods p
                 (m_Header_modify responseWriter_methods (Header_Set k v) rw) s)"
    by auto
  from Call_Header_Set.IH [OF rest] ne show ?case by (auto dest: kept_Set)
next
  case (Call_Header_Add k v p)
  from Call_Header_Add.prems have ne: "CanonicalMIMEHeaderKey k \<noteq> hk"
    and rest: "hk \<notin> set (modified_keys responseWriter_methods p
                 (m_Header_modify responseWriter_methods (Header_Add k v) rw) s)"
    by auto
  from Call_Header_Add.IH [OF rest] ne show ?case by (auto dest: kept_Add)
next
  case (Call_Header_Del k p)
  from Call_Header_Del.prems have ne: "CanonicalMIMEHeaderKey k \<noteq> hk"
    and rest: "hk \<notin> set (modified_keys responseWriter_methods p
                 (m_Header_modify responseWriter_methods (Header_Del k) rw) s)"
    by auto
  from Call_Header_Del.IH [OF rest] ne show ?case by (auto dest: kept_Del)
next
  case (Call_Header_Get k f)
  from Call_Header_Get.IH [of "f (Header_Get (m_Header responseWriter_methods rw) k)" rw s]
    Call_Header_Get.prems
  show ?case by auto
next
  case (Call_WriteHeader code p)
  from Call_WriteHeader.IH [of "rw_WriteHeader code rw" s] Call_WriteHeader.prems
  show ?case by (auto simp add: responseWriter_methods_def dest: kept_WriteHeader)
next
  case (Call_Write b f)
  obtain n err rw1 where w: "rw_Write b rw = ((n, err), rw1)"
    by (cases "rw_Write b rw") auto
  from Call_Write.prems w
  have "hk \<notin> set (modified_keys responseWriter_methods (f n err) rw1 s)"
    by (simp add: responseWriter_methods_def)
  from Call_Write.IH [of "f n" "f n err" rw1 s, OF _ _ this] obtain X where
    "kept hk rw1 X (fst (fst (run responseWriter_methods (f n err) rw1 s)))" by auto
  with w have "kept hk rw ((W_Write b, Header (ResponseWriter rw)) # X)
      (fst (fst (run responseWriter_methods (f n err) rw1 s)))"
    using kept_Write [of hk b rw X] by simp
  with w show ?case by (auto simp add: responseWriter_methods_def)
next
  case (Call_Tracer_Start ctx name kind attrs f)
  obtain span s' where t: "Tracer_Start_call ctx name kind attrs s = (span, s')"
    by (cases "Tracer_Start_call ctx name kind attrs s")
  from Call_Tracer_Start.IH [of "f span" rw s'] Call_Tracer_Start.prems t show ?case by auto
next
  case (Call_SDK c p)
  from Call_SDK.IH [of rw "call c s"] Call_SDK.prems show ?case by auto
qed

lemma run_kept_new:
  assumes "hk \<notin> set (modified_keys responseWriter_methods p rw s)"
  shows "kept hk rw (new_received (ResponseWriter rw)
                       (ResponseWriter (fst (fst (run responseWriter_methods p rw s)))))
           (fst (fst (run responseWriter_methods p rw s)))"
proof -
  obtain X where X: "kept hk rw X (fst (fst (run responseWriter_methods p rw s)))"
    using run_kept [OF assms] by blast
  then have "new_received (ResponseWriter rw)
               (ResponseWriter (fst (fst (run responseWriter_methods p rw s)))) = X"
    by (simp add: kept_def new_received_def)
  with X show ?thesis by simp
qed

lemma handler_writer_fields:
  "Header (ResponseWriter (handler_writer tel w r s)) =
     (Header w)(''X-Trace-Id'' \<mapsto> [TraceID (request_span tel r s)])"
  "received (ResponseWriter (handler_writer tel w r s)) = received w"
  by (simp_all add: handler_writer_def responseWriter_methods_def newResponseWriter_def
      Header_Set_def)

text \<open>
  Claim C8. The writer with which the middleware calls the wrapped handler has the header
  \<open>X-Trace-ID\<close> (stored under its canonical key) set to the trace ID of the request's
  span, and the underlying writer has received no call from the middleware before that;
  the writer that the middleware leaves is the one the handler left. So for every handler
  that does not itself set, add to or delete that header, the header has that value at
  every \<open>WriteHeader\<close> and \<open>Write\<close> that reaches the underlying writer and at the end of
  the request.
\<close>

theorem TracingMiddleware_trace_header:
  "Header (ResponseWriter (handler_writer tel w r s)) (CanonicalMIMEHeaderKey ''X-Trace-ID'')
     = Some [TraceID (request_span tel r s)]
   \<and> received (ResponseWriter (handler_writer tel w r s)) = received w
   \<and> fst (fst (TracingMiddleware tel next since w r s)) =
       ResponseWriter (fst (fst (handler_result tel next w r s)))
   \<and> (CanonicalMIMEHeaderKey ''X-Trace-ID''
        \<notin> set (modified_keys responseWriter_methods (next (handler_request tel r s))
                  (handler_writer tel w r s) (handler_state tel r s))
      \<longrightarrow> Header (fst (fst (TracingMiddleware tel next since w r s)))
            (CanonicalMIMEHeaderKey ''X-Trace-ID'') = Some [TraceID (request_span tel r s)]
          \<and> list_all (\<lambda>e. snd e (CanonicalMIMEHeaderKey ''X-Trace-ID'')
                              = Some [TraceID (request_span tel r s)])
              (new_received w (fst (fst (TracingMiddleware tel next since w r s)))))"
proof (intro conjI impI)
  show "Header (ResponseWriter (handler_writer tel w r s)) (CanonicalMIMEHeaderKey ''X-Trace-ID'')
     = Some [TraceID (request_span tel r s)]"
    by (simp add: handler_writer_fields)
  show "received (ResponseWriter (handler_writer tel w r s)) = received w"
    by (simp add: handler_writer_fields)
  show "fst (fst (TracingMiddleware tel next since w r s)) =
       ResponseWriter (fst (fst (handler_result tel next w r s)))"
    by (rule TracingMiddleware_writer)
next
  assume "CanonicalMIMEHeaderKey ''X-Trace-ID''
        \<notin> set (modified_keys responseWriter_methods (next (handler_request tel r s))
                  (handler_writer tel w r s) (handler_state tel r s))"
  from run_kept_new [OF this]
  have k: "kept ''X-Trace-Id'' (handler_writer tel w r s)
             (new_received w (ResponseWriter (fst (fst (handler_result tel next w r s)))))
             (fst (fst (handler_result tel next w r s)))"
    by (simp add: handler_result_def ServeHTTP_def new_received_def handler_writer_fields)
  from k show "Header (fst (fst (TracingMiddleware tel next since w r s)))
            (CanonicalMIMEHeaderKey ''X-Trace-ID'') = Some [TraceID (request_span tel r s)]"
    by (simp add: kept_def TracingMiddleware_writer handler_writer_fields)
  from k show "list_all (\<lambda>e. snd e (CanonicalMIMEHeaderKey ''X-Trace-ID'')
                              = Some [TraceID (request_span tel r s)])
              (new_received w (fst (fst (TracingMiddleware tel next since w r s))))"
    by (simp add: kept_def TracingMiddleware_writer handler_writer_fields)
qed

lemma example_health_request:
  \<open>modified_keys responseWriter_methods (healthHandler (handler_request example_tel example_r example_otel))
     (handler_writer example_tel example_w example_r example_otel)
     (handler_state example_tel example_r example_otel) = [''Content-Type'']\<close>
  \<open>map fst (new_received example_w
      (fst (fst (TracingMiddleware example_tel healthHandler 0 example_w example_r example_otel))))
    = [W_WriteHeader 200, W_Write ''{"status":"healthy","service":"sample-web-app"}'']\<close>
  by (simp_all add: TracingMiddleware_writer handler_result_def ServeHTTP_def healthHandler_def
      responseWriter_methods_def rw_WriteHeader_def rw_Write_def w_WriteHeader_def w_Write_def
      handler_writer_def newResponseWriter_def new_received_def Let_def split_def
      CanonicalMIMEHeaderKey_def validHeaderFieldByte_def to_upper_def to_lower_def
      lower_letters_def upper_letters_def)

theorem TracingMiddleware_trace_header_witness:
  \<open>map fst (new_received example_w
      (fst (fst (TracingMiddleware example_tel healthHandler 0 example_w example_r example_otel))))
    = [W_WriteHeader 200, W_Write ''{"status":"healthy","service":"sample-web-app"}'']
   \<and> list_all (\<lambda>e. snd e ''X-Trace-Id'' = Some [''4bf92f3577b34da6a3ce929d0e0e4736''])
       (new_received example_w
          (fst (fst (TracingMiddleware example_tel healthHandler 0 example_w example_r
                       example_otel))))
   \<and> Header (fst (fst (TracingMiddleware example_tel healthHandler 0 example_w example_r
                          example_otel))) ''X-Trace-Id''
       = Some [''4bf92f3577b34da6a3ce929d0e0e4736'']\<close>
proof -
  have "CanonicalMIMEHeaderKey ''X-Trace-ID''
        \<notin> set (modified_keys responseWriter_methods
                  (healthHandler (handler_request example_tel example_r example_otel))
                  (handler_writer example_tel example_w example_r example_otel)
                  (handler_state example_tel example_r example_otel))"
    by (simp add: example_health_request)
  with TracingMiddleware_trace_header
          [of example_tel example_w example_r example_otel healthHandler 0]
  have "Header (fst (fst (TracingMiddleware example_tel healthHandler 0 example_w example_r
                            example_otel))) (CanonicalMIMEHeaderKey ''X-Trace-ID'')
          = Some [TraceID (request_span example_tel example_r example_otel)]
        \<and> list_all (\<lambda>e. snd e (CanonicalMIMEHeaderKey ''X-Trace-ID'')
                              = Some [TraceID (request_span example_tel example_r example_otel)])
            (new_received example_w
               (fst (fst (TracingMiddleware example_tel healthHandler 0 example_w example_r
                            example_otel))))"
    by blast
  then show ?thesis
    by (simp add: example_health_request example_span_def)
qed

text \<open>
  The condition on the handler is needed: the header is gone from the response of a
  handler that deletes it, under any spelling of the key, before it writes.
\<close>

lemma trace_header_deleted_by_handler:
  "Header (fst (fst (TracingMiddleware example_tel header_removing_handler 0 example_w example_r
                       example_otel))) ''X-Trace-Id'' = None"
  by (simp add: TracingMiddleware_writer handler_result_def ServeHTTP_def
      header_removing_handler_def responseWriter_methods_def rw_WriteHeader_def w_WriteHeader_def
      handler_writer_def newResponseWriter_def Let_def Header_Del_def Header_Set_def
      CanonicalMIMEHeaderKey_def validHeaderFieldByte_def to_upper_def to_lower_def
      lower_letters_def upper_letters_def)

section \<open>Running without telemetry\<close>

lemma main_continues_without_telemetry:
  assumes "fst (Initialize ext (NewConfig env) s) = Inl e"
  shows "srv_tel (fst (main env ext s)) = None
     \<and> srv_Addr (fst (main env ext s)) = '':'' @ listen_port env"
  using assms by (simp add: main_def Let_def split_def)

lemma main_example_without_telemetry:
  "fst (Initialize exporter_fails (NewConfig Map.empty) example_otel)
     = Inl ''failed to initialize tracer provider: invalid endpoint''
   \<and> srv_tel (fst (main Map.empty exporter_fails example_otel)) = None
   \<and> srv_Addr (fst (main Map.empty exporter_fails example_otel)) = '':8080''"
proof -
  have i: "fst (Initialize exporter_fails (NewConfig Map.empty) example_otel)
     = Inl ''failed to initialize tracer provider: invalid endpoint''"
    by (simp add: Initialize_def initTracerProvider_def exporter_fails_def all_succeed_def Let_def)
  from main_continues_without_telemetry [OF i] i show ?thesis
    by (simp add: listen_port_def os_Getenv_def)
qed

lemma main_handler_unwrapped:
  "main_handler None router since w r s = ServeHTTP plain_methods router w r s"
  by (simp add: main_handler_def)

lemma health_without_telemetry:
  \<open>main_handler None (mux home echo None templates) since w (r\<lparr>URL_Path := ''/health''\<rparr>) s =
     ((w\<lparr>Header := (Header w)(''Content-Type'' \<mapsto> [''application/json'']),
         received := received w
           @ [(W_WriteHeader 200, (Header w)(''Content-Type'' \<mapsto> [''application/json''])),
              (W_Write ''{"status":"healthy","service":"sample-web-app"}'',
               (Header w)(''Content-Type'' \<mapsto> [''application/json'']))]\<rparr>, s), Returned)\<close>
  by (simp add: main_handler_def ServeHTTP_def mux_def healthHandler_def plain_methods_def
      w_WriteHeader_def w_Write_def Header_Set_def
      CanonicalMIMEHeaderKey_def validHeaderFieldByte_def to_upper_def to_lower_def
      lower_letters_def upper_letters_def)

text \<open>
  Claim C6 fails on the code in its part about the readiness response. With \<open>tel\<close> nil
  and the templates loaded, \<open>readinessHandler\<close> computes a map of checks in which
  \<open>telemetry\<close> is \<open>disabled\<close> and \<open>templates\<close> is \<open>ok\<close>, but the body it writes is a
  constant that names the templates check only: neither \<open>telemetry\<close> nor \<open>disabled\<close>
  occurs in it.
\<close>

theorem readiness_response_omits_telemetry:
  \<open>snd (readiness_checks None True) ''telemetry'' = Some ''disabled''
   \<and> snd (readiness_checks None True) ''templates'' = Some ''ok''
   \<and> main_handler None (mux home echo None True) since w (r\<lparr>URL_Path := ''/ready''\<rparr>) s =
       ((w\<lparr>Header := (Header w)(''Content-Type'' \<mapsto> [''application/json'']),
           received := received w
             @ [(W_WriteHeader 200, (Header w)(''Content-Type'' \<mapsto> [''application/json''])),
                (W_Write ''{"status":"ready","checks":{"templates":"ok"}}'',
                 (Header w)(''Content-Type'' \<mapsto> [''application/json'']))]\<rparr>, s), Returned)
   \<and> \<not> sublist ''telemetry'' ''{"status":"ready","checks":{"templates":"ok"}}''
   \<and> \<not> sublist ''disabled'' ''{"status":"ready","checks":{"templates":"ok"}}''\<close>
proof (intro conjI)
  show \<open>snd (readiness_checks None True) ''telemetry'' = Some ''disabled''\<close>
    by (simp add: readiness_checks_def)
  show \<open>snd (readiness_checks None True) ''templates'' = Some ''ok''\<close>
    by (simp add: readiness_checks_def)
  show \<open>main_handler None (mux home echo None True) since w (r\<lparr>URL_Path := ''/ready''\<rparr>) s =
       ((w\<lparr>Header := (Header w)(''Content-Type'' \<mapsto> [''application/json'']),
           received := received w
             @ [(W_WriteHeader 200, (Header w)(''Content-Type'' \<mapsto> [''application/json''])),
                (W_Write ''{"status":"ready","checks":{"templates":"ok"}}'',
                 (Header w)(''Content-Type'' \<mapsto> [''application/json'']))]\<rparr>, s), Returned)\<close>
    by (simp add: main_handler_def ServeHTTP_def mux_def readinessHandler_def readiness_checks_def
        plain_methods_def w_WriteHeader_def w_Write_def Header_Set_def
        CanonicalMIMEHeaderKey_def validHeaderFieldByte_def to_upper_def to_lower_def
        lower_letters_def upper_letters_def)
  show \<open>\<not> sublist ''telemetry'' ''{"status":"ready","checks":{"templates":"ok"}}''\<close>
    by code_simp
  show \<open>\<not> sublist ''disabled'' ''{"status":"ready","checks":{"templates":"ok"}}''\<close>
    by code_simp
qed

end
